theory Spec2Isabelle
  imports Complex_Main
begin

section \<open>Adaptive trust-region optimisation (pymor/algorithms/tr.py)\<close>

text \<open>
  A shallow embedding of \<^verbatim>\<open>trust_region\<close> and of the class \<^verbatim>\<open>TRSurrogate\<close>.
  The full model, the reductor, the reduced models, the parameter space, NumPy and the
  BFGS subproblem solver are collaborators whose code is not part of the file; they are
  the fields of the record \<open>collaborators\<close> and every definition takes them as its
  first argument.
\<close>

subsection \<open>Scalars\<close>

text \<open>
  Outputs, error estimates, the radius and the configuration factors are reals (exact
  arithmetic in place of IEEE doubles). The source itself handles non-finite values in
  two places, the criticality (initialised with \<^verbatim>\<open>np.inf\<close>) and the parameter norm
  (tested with \<^verbatim>\<open>np.isfinite\<close>); these values and the quotient of the line-search
  criterion are of type \<open>npfloat\<close>, with the comparisons of IEEE 754: every comparison
  with NaN is false.
\<close>

datatype npfloat = Finite real | PosInf | NegInf | NaN

fun np_less :: "npfloat \<Rightarrow> npfloat \<Rightarrow> bool" where
  "np_less (Finite a) (Finite b) = (a < b)"
| "np_less (Finite a) PosInf = True"
| "np_less NegInf (Finite b) = True"
| "np_less NegInf PosInf = True"
| "np_less _ _ = False"

fun np_greater_equal :: "npfloat \<Rightarrow> npfloat \<Rightarrow> bool" where
  "np_greater_equal (Finite a) (Finite b) = (a \<ge> b)"
| "np_greater_equal (Finite a) NegInf = True"
| "np_greater_equal PosInf (Finite b) = True"
| "np_greater_equal PosInf PosInf = True"
| "np_greater_equal PosInf NegInf = True"
| "np_greater_equal NegInf NegInf = True"
| "np_greater_equal _ _ = False"

fun isfinite :: "npfloat \<Rightarrow> bool" where
  "isfinite (Finite a) = True"
| "isfinite _ = False"

text \<open>
  Division of NumPy scalars by a divisor that is not negative (the source divides by an
  absolute value): a zero divisor gives an infinity or NaN, with a warning and no
  exception.
\<close>

definition np_true_divide :: "real \<Rightarrow> real \<Rightarrow> npfloat" where
  "np_true_divide a b =
     (if b \<noteq> 0 then Finite (a / b)
      else if a > 0 then PosInf
      else if a < 0 then NegInf
      else NaN)"

subsection \<open>Errors\<close>

datatype tr_message = MaximumIterations | FailedToConverge

datatype error =
    TRError tr_message
  | AssertionError
  | AttributeError
  | IndexError
  | BFGSError

subsection \<open>Collaborators\<close>

text \<open>
  \<open>extend_basis\<close> and \<open>reduce\<close> return \<open>None\<close> where the reductor raises an exception.
  \<open>extend_basis\<close> returns the enriched reductor: the source mutates a deep copy, which
  no other reference reaches. \<open>bfgs\<close> is \<^verbatim>\<open>error_aware_bfgs\<close> as a function of the
  arguments that vary between calls: the reduced model, the starting point and the
  \<^verbatim>\<open>error_criterion\<close> callback. It returns \<open>None\<close> where the solver raises: by the
  docstring of \<^verbatim>\<open>maxiter_subproblem\<close> the subproblem fails when its iteration count
  reaches that value without converging. \<open>sub_data_mus\<close> reads \<^verbatim>\<open>sub_data['mus']\<close>.
  Reduced and full models have one scalar output (the \<^verbatim>\<open>[0, 0]\<close> entry read by the
  source), so the assertions on \<^verbatim>\<open>output_functional\<close> are not branches of the model.
\<close>

record ('mu, 'red, 'rom, 'sol, 'sd) collaborators =
  fom_solve :: "'mu \<Rightarrow> 'sol"
  fom_output_at :: "'mu \<Rightarrow> real"
  fom_output_d_mu :: "'mu \<Rightarrow> 'mu"
  rom_output_at :: "'rom \<Rightarrow> 'mu \<Rightarrow> real"
  rom_estimate_output_error :: "'rom \<Rightarrow> 'mu \<Rightarrow> real"
  extend_basis :: "'red \<Rightarrow> 'sol \<Rightarrow> 'red option"
  reduce :: "'red \<Rightarrow> 'rom option"
  bfgs :: "'rom \<Rightarrow> 'mu \<Rightarrow> ('mu \<Rightarrow> real \<Rightarrow> bool) \<Rightarrow> ('mu \<times> 'sd) option"
  sub_data_mus :: "'sd \<Rightarrow> 'mu list"
  clip :: "'mu \<Rightarrow> 'mu"
  minus_mu :: "'mu \<Rightarrow> 'mu \<Rightarrow> 'mu"
  linalg_norm :: "'mu \<Rightarrow> npfloat"

subsection \<open>TRSurrogate\<close>

text \<open>
  The attributes of a \<^verbatim>\<open>TRSurrogate\<close>. \<open>rom = None\<close> is the object inside
  \<^verbatim>\<open>__init__\<close>, before the first \<^verbatim>\<open>accept\<close> has assigned \<^verbatim>\<open>self.rom\<close>; reading it
  there raises AttributeError. For the other three fields \<open>None\<close> is Python's
  \<^verbatim>\<open>None\<close>.
\<close>

record ('red, 'rom) surrogate =
  reductor :: "'red option"
  rom :: "'rom option"
  new_reductor :: "'red option"
  new_rom :: "'rom option"

subsection \<open>The state of trust_region\<close>

text \<open>
  The keyword arguments that the loop reads. The remaining ones are passed to
  \<^verbatim>\<open>error_aware_bfgs\<close> unchanged and are part of the collaborator \<open>bfgs\<close>.
\<close>

record config =
  beta :: real
  shrink_factor :: real
  miniter :: int
  maxiter :: int
  tol_criticality :: npfloat
  radius_tol :: real

text \<open>
  The local variables of \<^verbatim>\<open>trust_region\<close> that live across iterations.
  \<open>data_mus\<close> and \<open>data_subproblem_data\<close> are \<^verbatim>\<open>data['mus']\<close> and
  \<^verbatim>\<open>data['subproblem_data']\<close>.
\<close>

record ('mu, 'red, 'rom, 'sd) tr_state =
  mu :: "'mu"
  radius :: real
  surrogate :: "('red, 'rom) surrogate"
  mu_norm :: npfloat
  data_mus :: "'mu list"
  data_subproblem_data :: "'sd list"
  update_norms :: "npfloat list"
  foc_norms :: "npfloat list"
  old_rom_output :: real
  old_fom_output :: real
  first_order_criticality :: npfloat
  iteration :: int

text \<open>The outcome of the test at the head of the loop body.\<close>

datatype check = Converged | BudgetExhausted | Continue

text \<open>
  What the subproblem hands to the classification: the candidate, the trace of the
  solver and the three outputs \<^verbatim>\<open>compare_output\<close>, \<^verbatim>\<open>estimate_output\<close> and
  \<^verbatim>\<open>current_output\<close>.
\<close>

record ('mu, 'sd) proposal =
  cand_mu :: "'mu"
  cand_sub_data :: "'sd"
  compare_output :: real
  estimate_output :: real
  current_output :: real

text \<open>
  What the three-way test assigns: \<^verbatim>\<open>rejected\<close>, \<^verbatim>\<open>radius\<close>, the surrogate
  and \<^verbatim>\<open>current_output\<close>.
\<close>

record ('red, 'rom) verdict =
  rejected :: bool
  radius_after :: real
  surrogate_after :: "('red, 'rom) surrogate"
  output_after :: real

text \<open>
  The dictionary returned beside the final parameter.
\<close>

record ('mu, 'sd) tr_data =
  subproblem_data :: "'sd list"
  mus :: "'mu list"
  data_update_norms :: "npfloat list"
  data_foc_norms :: "npfloat list"
  iterations :: int

subsection \<open>The methods of TRSurrogate\<close>

definition rom_output ::
  "('mu, 'red, 'rom, 'sol, 'sd) collaborators \<Rightarrow> ('red, 'rom) surrogate \<Rightarrow> 'mu \<Rightarrow> error + real" where
  "rom_output env s param =
     (case rom s of None \<Rightarrow> Inl AttributeError | Some m \<Rightarrow> Inr (rom_output_at env m param))"

definition estimate_output_error ::
  "('mu, 'red, 'rom, 'sol, 'sd) collaborators \<Rightarrow> ('red, 'rom) surrogate \<Rightarrow> 'mu \<Rightarrow> error + real" where
  "estimate_output_error env s param =
     (case rom s of None \<Rightarrow> Inl AttributeError
      | Some m \<Rightarrow> Inr (rom_estimate_output_error env m param))"

definition fom_output ::
  "('mu, 'red, 'rom, 'sol, 'sd) collaborators \<Rightarrow> 'mu \<Rightarrow> real" where
  "fom_output env param = fom_output_at env param"

definition fom_gradient ::
  "('mu, 'red, 'rom, 'sol, 'sd) collaborators \<Rightarrow> 'mu \<Rightarrow> 'mu" where
  "fom_gradient env param = fom_output_d_mu env param"

text \<open>
  \<open>try_extension\<close> is the body of the \<^verbatim>\<open>try\<close> block of \<^verbatim>\<open>extend\<close>, run on the deep
  copy of the committed reductor: \<open>None\<close> when \<^verbatim>\<open>extend_basis\<close> or \<^verbatim>\<open>reduce\<close> raises
  (a reductor that is \<^verbatim>\<open>None\<close> has no method \<^verbatim>\<open>extend_basis\<close>, which raises as well).
\<close>

definition try_extension ::
  "('mu, 'red, 'rom, 'sol, 'sd) collaborators \<Rightarrow> 'red option \<Rightarrow> 'sol \<Rightarrow> ('red \<times> 'rom) option" where
  "try_extension env copy U_h_mu =
     (case copy of
        None \<Rightarrow> None
      | Some r \<Rightarrow>
          (case extend_basis env r U_h_mu of
             None \<Rightarrow> None
           | Some r' \<Rightarrow>
               (case reduce env r' of
                  None \<Rightarrow> None
                | Some m \<Rightarrow> Some (r', m))))"

definition extend ::
  "('mu, 'red, 'rom, 'sol, 'sd) collaborators \<Rightarrow> ('red, 'rom) surrogate \<Rightarrow> 'mu
     \<Rightarrow> error + ('red, 'rom) surrogate" where
  "extend env s param =
     (let U_h_mu = fom_solve env param in
      case try_extension env (reductor s) U_h_mu of
        Some (r', m) \<Rightarrow> Inr (s\<lparr>new_reductor := Some r', new_rom := Some m\<rparr>)
      | None \<Rightarrow>
          (case rom s of
             None \<Rightarrow> Inl AttributeError
           | Some m \<Rightarrow> Inr (s\<lparr>new_reductor := reductor s, new_rom := Some m\<rparr>)))"

definition new_rom_output ::
  "('mu, 'red, 'rom, 'sol, 'sd) collaborators \<Rightarrow> ('red, 'rom) surrogate \<Rightarrow> 'mu \<Rightarrow> error + real" where
  "new_rom_output env s param =
     (case new_rom s of
        None \<Rightarrow> Inl AssertionError
      | Some m \<Rightarrow> Inr (rom_output_at env m param))"

definition accept :: "('red, 'rom) surrogate \<Rightarrow> error + ('red, 'rom) surrogate" where
  "accept s =
     (case new_rom s of
        None \<Rightarrow> Inl AssertionError
      | Some m \<Rightarrow>
          Inr (s\<lparr>rom := Some m, reductor := new_reductor s, new_rom := None, new_reductor := None\<rparr>))"

definition reject :: "('red, 'rom) surrogate \<Rightarrow> ('red, 'rom) surrogate" where
  "reject s = s\<lparr>new_rom := None, new_reductor := None\<rparr>"

text \<open>
  \<^verbatim>\<open>TRSurrogate.__init__\<close>: the reductor is stored, the first reduced model is built by
  \<^verbatim>\<open>extend\<close> and \<^verbatim>\<open>accept\<close>, and the placeholders are reset. The assertions on the
  type and the compatibility of the initial guess are the typing of \<open>'mu\<close>.
\<close>

definition TRSurrogate ::
  "('mu, 'red, 'rom, 'sol, 'sd) collaborators \<Rightarrow> 'red \<Rightarrow> 'mu \<Rightarrow> error + ('red, 'rom) surrogate" where
  "TRSurrogate env red initial_guess =
     (let self = \<lparr>reductor = Some red, rom = None, new_reductor = None, new_rom = None\<rparr> in
      case extend env self initial_guess of
        Inl e \<Rightarrow> Inl e
      | Inr s1 \<Rightarrow>
          (case accept s1 of
             Inl e \<Rightarrow> Inl e
           | Inr s2 \<Rightarrow> Inr (s2\<lparr>new_reductor := None, new_rom := None\<rparr>)))"

subsection \<open>The line-search criterion\<close>

text \<open>
  The closure \<^verbatim>\<open>error_aware_line_search_criterion\<close>. It reads \<^verbatim>\<open>surrogate\<close>,
  \<^verbatim>\<open>beta\<close> and \<^verbatim>\<open>radius\<close> from the enclosing scope when it is called, that is
  during \<^verbatim>\<open>error_aware_bfgs\<close>: \<open>m\<close> is the committed reduced model and \<open>r\<close> the
  radius of the running iteration.
\<close>

definition error_aware_line_search_criterion ::
  "('mu, 'red, 'rom, 'sol, 'sd) collaborators \<Rightarrow> 'rom \<Rightarrow> real \<Rightarrow> real \<Rightarrow> 'mu \<Rightarrow> real \<Rightarrow> bool" where
  "error_aware_line_search_criterion env m b r new_mu current_value =
     (let output_error = rom_estimate_output_error env m new_mu in
      if np_greater_equal (np_true_divide output_error \<bar>current_value\<bar>) (Finite (b * r))
      then True else False)"

subsection \<open>One pass of the loop\<close>

text \<open>Lines 143 to 151: the test at the head of the loop body.\<close>

definition termination_check :: "config \<Rightarrow> ('mu, 'red, 'rom, 'sd) tr_state \<Rightarrow> check" where
  "termination_check cfg s =
     (if iteration s \<ge> miniter cfg then
        (if np_less (first_order_criticality s) (tol_criticality cfg) then Converged
         else if iteration s \<ge> maxiter cfg then BudgetExhausted
         else Continue)
      else Continue)"

text \<open>
  Lines 159 to 170: the subproblem is solved on the committed reduced model, and the
  three outputs of the classification are read from it. \<^verbatim>\<open>surrogate.rom\<close> is read
  first; with the reduced model \<open>m\<close> it holds, \<^verbatim>\<open>surrogate.rom_output(x)\<close> and
  \<^verbatim>\<open>surrogate.estimate_output_error(x)\<close> are \<open>rom_output_at env m x\<close> and
  \<open>rom_estimate_output_error env m x\<close> (lemma \<open>committed_outputs\<close>).
  \<^verbatim>\<open>trust_region\<close> has no handler around the call of \<^verbatim>\<open>error_aware_bfgs\<close>: what
  the solver raises leaves the function. \<^verbatim>\<open>sub_data['mus'][index]\<close> raises IndexError
  on an empty list.
\<close>

definition solve_subproblem ::
  "('mu, 'red, 'rom, 'sol, 'sd) collaborators \<Rightarrow> config \<Rightarrow> ('mu, 'red, 'rom, 'sd) tr_state
     \<Rightarrow> error + ('mu, 'sd) proposal" where
  "solve_subproblem env cfg s =
     (case rom (surrogate s) of
        None \<Rightarrow> Inl AttributeError
      | Some m \<Rightarrow>
          (case bfgs env m (mu s)
                  (error_aware_line_search_criterion env m (beta cfg) (radius s)) of
             None \<Rightarrow> Inl BFGSError
           | Some (mu', sub_data) \<Rightarrow>
               (let mus = sub_data_mus env sub_data;
                    index = (if length mus > 1 then 1 else 0)
                in if index < length mus then
                     Inr \<lparr>cand_mu = mu', cand_sub_data = sub_data,
                          compare_output = rom_output_at env m (mus ! index),
                          estimate_output = rom_estimate_output_error env m mu',
                          current_output = rom_output_at env m mu'\<rparr>
                   else Inl IndexError)))"

text \<open>
  Lines 173 to 208: the three-way test. The verdict holds what the branches assign:
  \<^verbatim>\<open>rejected\<close>, \<^verbatim>\<open>radius\<close>, the surrogate and \<^verbatim>\<open>current_output\<close> (which the
  third branch overwrites with the output of the pending reduced model).
\<close>

definition output_checks ::
  "('mu, 'red, 'rom, 'sol, 'sd) collaborators \<Rightarrow> config \<Rightarrow> ('mu, 'red, 'rom, 'sd) tr_state
     \<Rightarrow> ('mu, 'sd) proposal \<Rightarrow> error + ('red, 'rom) verdict" where
  "output_checks env cfg s p =
     (if current_output p + estimate_output p < compare_output p then
        (case extend env (surrogate s) (cand_mu p) of
           Inl e \<Rightarrow> Inl e
         | Inr sur \<Rightarrow>
             (let current_fom_output = fom_output env (cand_mu p);
                  fom_output_diff = old_fom_output s - current_fom_output;
                  rom_output_diff = old_rom_output s - current_output p
              in Inr \<lparr>rejected = False,
                      radius_after =
                        (if fom_output_diff \<ge> radius_tol cfg * rom_output_diff
                         then radius s / shrink_factor cfg else radius s),
                      surrogate_after = sur,
                      output_after = current_output p\<rparr>))
      else if current_output p - estimate_output p > compare_output p then
        Inr \<lparr>rejected = True,
             radius_after = radius s * shrink_factor cfg,
             surrogate_after = surrogate s,
             output_after = current_output p\<rparr>
      else
        (case extend env (surrogate s) (cand_mu p) of
           Inl e \<Rightarrow> Inl e
         | Inr sur \<Rightarrow>
             (case new_rom_output env sur (cand_mu p) of
                Inl e \<Rightarrow> Inl e
              | Inr updated_output \<Rightarrow>
                  (if updated_output \<le> compare_output p then
                     (let current_fom_output = fom_output env (cand_mu p);
                          fom_output_diff = old_fom_output s - current_fom_output;
                          rom_output_diff = old_rom_output s - updated_output
                      in Inr \<lparr>rejected = False,
                              radius_after =
                                (if fom_output_diff \<ge> radius_tol cfg * rom_output_diff
                                 then radius s / shrink_factor cfg else radius s),
                              surrogate_after = sur,
                              output_after = updated_output\<rparr>)
                   else
                     Inr \<lparr>rejected = True,
                          radius_after = radius s * shrink_factor cfg,
                          surrogate_after = sur,
                          output_after = updated_output\<rparr>))))"

text \<open>
  Lines 211 to 230: the record and the surrogate are updated on acceptance, the
  parameter is restored on rejection. \<open>mu s\<close> is \<^verbatim>\<open>old_mu\<close>, the copy taken before
  the subproblem.
\<close>

definition handle_rejection ::
  "('mu, 'red, 'rom, 'sol, 'sd) collaborators \<Rightarrow> ('mu, 'red, 'rom, 'sd) tr_state
     \<Rightarrow> ('mu, 'sd) proposal \<Rightarrow> ('red, 'rom) verdict \<Rightarrow> error + ('mu, 'red, 'rom, 'sd) tr_state" where
  "handle_rejection env s p v =
     (let old_mu = mu s; mu' = cand_mu p in
      if \<not> rejected v then
        (let gradient = fom_gradient env mu';
             foc = linalg_norm env (minus_mu env mu' (clip env (minus_mu env mu' gradient)))
         in case accept (surrogate_after v) of
              Inl e \<Rightarrow> Inl e
            | Inr sur \<Rightarrow>
                Inr (s\<lparr>mu := mu',
                       radius := radius_after v,
                       surrogate := sur,
                       mu_norm := linalg_norm env mu',
                       data_mus := data_mus s @ [mu'],
                       data_subproblem_data := data_subproblem_data s @ [cand_sub_data p],
                       update_norms := update_norms s @ [linalg_norm env (minus_mu env mu' old_mu)],
                       foc_norms := foc_norms s @ [foc],
                       old_rom_output := output_after v,
                       first_order_criticality := foc,
                       iteration := iteration s + 1\<rparr>))
      else
        Inr (s\<lparr>mu := old_mu,
               radius := radius_after v,
               surrogate := reject (surrogate_after v),
               iteration := iteration s + 1\<rparr>))"

text \<open>
  The loop body after the termination check, lines 153 to 240, ending with the test
  of the cached norm.
\<close>

definition tr_iteration ::
  "('mu, 'red, 'rom, 'sol, 'sd) collaborators \<Rightarrow> config \<Rightarrow> ('mu, 'red, 'rom, 'sd) tr_state
     \<Rightarrow> error + ('mu, 'red, 'rom, 'sd) tr_state" where
  "tr_iteration env cfg s =
     (case solve_subproblem env cfg s of
        Inl e \<Rightarrow> Inl e
      | Inr p \<Rightarrow>
          (case output_checks env cfg s p of
             Inl e \<Rightarrow> Inl e
           | Inr v \<Rightarrow>
               (case handle_rejection env s p v of
                  Inl e \<Rightarrow> Inl e
                | Inr s' \<Rightarrow>
                    if \<not> isfinite (mu_norm s') then Inl (TRError FailedToConverge)
                    else Inr s')))"

lemma handle_rejection_iteration:
  "handle_rejection env s p v = Inr s' \<Longrightarrow> iteration s' = iteration s + 1"
  by (auto simp: handle_rejection_def Let_def split: if_splits sum.splits)

lemma tr_iteration_iteration:
  "tr_iteration env cfg s = Inr s' \<Longrightarrow> iteration s' = iteration s + 1"
  by (auto simp: tr_iteration_def split: sum.splits if_splits dest: handle_rejection_iteration)

lemma termination_check_Continue:
  "termination_check cfg s = Continue \<Longrightarrow> iteration s < max (miniter cfg) (maxiter cfg)"
  by (auto simp: termination_check_def split: if_splits)

subsection \<open>The loop and the function\<close>

function tr_loop ::
  "('mu, 'red, 'rom, 'sol, 'sd) collaborators \<Rightarrow> config \<Rightarrow> ('mu, 'red, 'rom, 'sd) tr_state
     \<Rightarrow> error + ('mu, 'red, 'rom, 'sd) tr_state" where
  "tr_loop env cfg s =
     (case termination_check cfg s of
        Converged \<Rightarrow> Inr s
      | BudgetExhausted \<Rightarrow> Inl (TRError MaximumIterations)
      | Continue \<Rightarrow>
          (case tr_iteration env cfg s of
             Inl e \<Rightarrow> Inl e
           | Inr s' \<Rightarrow> tr_loop env cfg s'))"
  by pat_completeness auto
termination
proof (relation "measure (\<lambda>(env, cfg, s). nat (max (miniter cfg) (maxiter cfg) - iteration s))")
  show "wf (measure (\<lambda>(env, cfg, s). nat (max (miniter cfg) (maxiter cfg) - iteration s)))"
    by simp
next
  fix env :: "('mu, 'red, 'rom, 'sol, 'sd) collaborators"
    and cfg :: config
    and s s' :: "('mu, 'red, 'rom, 'sd) tr_state"
  assume c: "termination_check cfg s = Continue" and i: "tr_iteration env cfg s = Inr s'"
  from c have "iteration s < max (miniter cfg) (maxiter cfg)"
    by (rule termination_check_Continue)
  moreover from i have "iteration s' = iteration s + 1"
    by (rule tr_iteration_iteration)
  ultimately show "((env, cfg, s'), (env, cfg, s))
      \<in> measure (\<lambda>(env, cfg, s). nat (max (miniter cfg) (maxiter cfg) - iteration s))"
    by simp
qed

declare tr_loop.simps [simp del]

text \<open>
  \<^verbatim>\<open>trust_region\<close>, from the assertion on \<^verbatim>\<open>shrink_factor\<close> on. The default
  parameter space and the random initial guess are drawn before that; \<open>mu0\<close> is the
  initial guess as a NumPy array and \<open>radius0\<close> the argument \<^verbatim>\<open>radius\<close>.
\<close>

definition trust_region ::
  "('mu, 'red, 'rom, 'sol, 'sd) collaborators \<Rightarrow> config \<Rightarrow> 'red \<Rightarrow> 'mu \<Rightarrow> real
     \<Rightarrow> error + ('mu \<times> ('mu, 'sd) tr_data)" where
  "trust_region env cfg red mu0 radius0 =
     (if shrink_factor cfg = 0 then Inl AssertionError
      else
        (case TRSurrogate env red mu0 of
           Inl e \<Rightarrow> Inl e
         | Inr sur \<Rightarrow>
             (case rom_output env sur mu0 of
                Inl e \<Rightarrow> Inl e
              | Inr r0 \<Rightarrow>
                  (case tr_loop env cfg
                          \<lparr>mu = mu0, radius = radius0, surrogate = sur,
                           mu_norm = linalg_norm env mu0,
                           data_mus = [mu0], data_subproblem_data = [],
                           update_norms = [], foc_norms = [],
                           old_rom_output = r0, old_fom_output = fom_output env mu0,
                           first_order_criticality = PosInf, iteration = 0\<rparr> of
                     Inl e \<Rightarrow> Inl e
                   | Inr s \<Rightarrow>
                       Inr (mu s,
                            \<lparr>subproblem_data = data_subproblem_data s, mus = data_mus s,
                             data_update_norms = update_norms s, data_foc_norms = foc_norms s,
                             iterations = iteration s\<rparr>)))))"

subsection \<open>Auxiliary notions for the statements\<close>

text \<open>
  Whether the iteration started in state \<open>s\<close> rejects its candidate, and the number of
  accepting iterations that the loop completes from \<open>s\<close> on. Both follow the loop and
  serve to state what the record holds when the loop ends.
\<close>

definition iteration_rejected ::
  "('mu, 'red, 'rom, 'sol, 'sd) collaborators \<Rightarrow> config \<Rightarrow> ('mu, 'red, 'rom, 'sd) tr_state
     \<Rightarrow> bool" where
  "iteration_rejected env cfg s =
     (case solve_subproblem env cfg s of
        Inl e \<Rightarrow> False
      | Inr p \<Rightarrow> (case output_checks env cfg s p of Inl e \<Rightarrow> False | Inr v \<Rightarrow> rejected v))"

function accepted_iterations ::
  "('mu, 'red, 'rom, 'sol, 'sd) collaborators \<Rightarrow> config \<Rightarrow> ('mu, 'red, 'rom, 'sd) tr_state
     \<Rightarrow> nat" where
  "accepted_iterations env cfg s =
     (case termination_check cfg s of
        Converged \<Rightarrow> 0
      | BudgetExhausted \<Rightarrow> 0
      | Continue \<Rightarrow>
          (case tr_iteration env cfg s of
             Inl e \<Rightarrow> 0
           | Inr s' \<Rightarrow>
               (if iteration_rejected env cfg s then 0 else 1) + accepted_iterations env cfg s'))"
  by pat_completeness auto
termination
proof (relation "measure (\<lambda>(env, cfg, s). nat (max (miniter cfg) (maxiter cfg) - iteration s))")
  show "wf (measure (\<lambda>(env, cfg, s). nat (max (miniter cfg) (maxiter cfg) - iteration s)))"
    by simp
next
  fix env :: "('mu, 'red, 'rom, 'sol, 'sd) collaborators"
    and cfg :: config
    and s s' :: "('mu, 'red, 'rom, 'sd) tr_state"
  assume c: "termination_check cfg s = Continue" and i: "tr_iteration env cfg s = Inr s'"
  from termination_check_Continue [OF c] tr_iteration_iteration [OF i]
  show "((env, cfg, s'), (env, cfg, s))
      \<in> measure (\<lambda>(env, cfg, s). nat (max (miniter cfg) (maxiter cfg) - iteration s))"
    by simp
qed

declare accepted_iterations.simps [simp del]

text \<open>
  \<open>tr_after env cfg n s\<close> is the state at the head of the loop after \<open>n\<close> further
  passes, each of which went through the termination check and completed its
  iteration; \<open>None\<close> when the loop ends earlier.
\<close>

fun tr_after ::
  "('mu, 'red, 'rom, 'sol, 'sd) collaborators \<Rightarrow> config \<Rightarrow> nat \<Rightarrow> ('mu, 'red, 'rom, 'sd) tr_state
     \<Rightarrow> ('mu, 'red, 'rom, 'sd) tr_state option" where
  "tr_after env cfg 0 s = Some s"
| "tr_after env cfg (Suc n) s =
     (if termination_check cfg s = Continue then
        (case tr_iteration env cfg s of
           Inl e \<Rightarrow> None
         | Inr s' \<Rightarrow> tr_after env cfg n s')
      else None)"

text \<open>
  A state from which an iteration cannot fail, for collaborators whose norms are finite
  and whose subproblem solver reports at least one iterate.
\<close>

definition well_started :: "('mu, 'red, 'rom, 'sd) tr_state \<Rightarrow> bool" where
  "well_started s \<longleftrightarrow>
     rom (surrogate s) \<noteq> None \<and> isfinite (mu_norm s)
     \<and> \<not> np_less (first_order_criticality s) (Finite 0)"

subsection \<open>A small instance\<close>

text \<open>
  A one-dimensional instance on which the definitions are evaluated. The reductor and
  the reduced model are the list of snapshots; the subproblem solver moves by \<open>step\<close>
  and reports three iterates; \<open>err\<close> is the error estimate, \<open>gain\<close> the amount by
  which an enriched reduced model lowers the output, and \<open>ok\<close> says whether the basis
  extension succeeds.
\<close>

definition toy_model ::
  "real \<Rightarrow> real \<Rightarrow> real \<Rightarrow> bool
     \<Rightarrow> (real, real list, real list, real, real list) collaborators" where
  "toy_model step err gain ok =
     \<lparr>fom_solve = (\<lambda>x. x),
      fom_output_at = (\<lambda>x. x),
      fom_output_d_mu = (\<lambda>x. 1),
      rom_output_at = (\<lambda>m x. if length m \<le> 1 then x else x - gain),
      rom_estimate_output_error = (\<lambda>m x. err),
      extend_basis = (\<lambda>r u. if ok then Some (r @ [u]) else None),
      reduce = (\<lambda>r. Some r),
      bfgs = (\<lambda>m x c. Some (x + step, [x, x - 1 / 2, x + step])),
      sub_data_mus = (\<lambda>sd. sd),
      clip = (\<lambda>x. x),
      minus_mu = (\<lambda>x y. x - y),
      linalg_norm = (\<lambda>x. Finite \<bar>x\<bar>)\<rparr>"

definition toy_config :: "int \<Rightarrow> int \<Rightarrow> npfloat \<Rightarrow> config" where
  "toy_config lo hi tol =
     \<lparr>beta = 95 / 100, shrink_factor = 1 / 2, miniter = lo, maxiter = hi,
      tol_criticality = tol, radius_tol = 3 / 4\<rparr>"

definition toy_surrogate :: "(real list, real list) surrogate" where
  "toy_surrogate = \<lparr>reductor = Some [2], rom = Some [2], new_reductor = None, new_rom = None\<rparr>"

definition toy_state :: "(real, real list, real list, real list) tr_state" where
  "toy_state =
     \<lparr>mu = 2, radius = 1 / 10,
      surrogate = toy_surrogate,
      mu_norm = Finite 2, data_mus = [2], data_subproblem_data = [],
      update_norms = [], foc_norms = [],
      old_rom_output = 2, old_fom_output = 2,
      first_order_criticality = PosInf, iteration = 0\<rparr>"

text \<open>The state after the iteration that accepts the candidate 1.\<close>

definition toy_state_accepted :: "(real, real list, real list, real list) tr_state" where
  "toy_state_accepted =
     \<lparr>mu = 1, radius = 1 / 5,
      surrogate = \<lparr>reductor = Some [2, 1], rom = Some [2, 1],
                   new_reductor = None, new_rom = None\<rparr>,
      mu_norm = Finite 1, data_mus = [2, 1], data_subproblem_data = [[2, 3 / 2, 1]],
      update_norms = [Finite 1], foc_norms = [Finite 1],
      old_rom_output = 1, old_fom_output = 2,
      first_order_criticality = Finite 1, iteration = 1\<rparr>"

section \<open>Properties\<close>

subsection \<open>The surrogate\<close>

lemma try_extension_None_iff:
  "try_extension env c u = None \<longleftrightarrow>
     (c = None \<or> (\<exists>r. c = Some r \<and> (extend_basis env r u = None
        \<or> (\<exists>r'. extend_basis env r u = Some r' \<and> reduce env r' = None))))"
  by (auto simp: try_extension_def split: option.splits)

lemma extend_committed:
  assumes "rom s = Some m"
  shows "\<exists>s'. extend env s x = Inr s' \<and> rom s' = Some m \<and> reductor s' = reductor s
           \<and> new_rom s' \<noteq> None"
  using assms by (auto simp: extend_def Let_def split: option.splits)

lemma committed_outputs:
  assumes "rom s = Some m"
  shows "rom_output env s x = Inr (rom_output_at env m x)"
    and "estimate_output_error env s x = Inr (rom_estimate_output_error env m x)"
  using assms by (simp_all add: rom_output_def estimate_output_error_def)


text \<open>
  Claim C8, as amended. On a surrogate that has a committed reduced model, a failure of
  \<^verbatim>\<open>extend_basis\<close> or of \<^verbatim>\<open>reduce\<close> inside \<^verbatim>\<open>extend\<close> raises nothing: the pending
  pair becomes the committed pair, and the committed pair is unchanged.
\<close>

theorem extend_failure_falls_back:
  assumes "reductor s = Some r" and "rom s = Some m"
    and "extend_basis env r (fom_solve env x) = None
         \<or> (\<exists>r'. extend_basis env r (fom_solve env x) = Some r' \<and> reduce env r' = None)"
  shows "extend env s x = Inr (s\<lparr>new_reductor := reductor s, new_rom := rom s\<rparr>)"
proof -
  from assms(1,3) have "try_extension env (reductor s) (fom_solve env x) = None"
    by (auto simp: try_extension_def)
  with assms(2) show ?thesis
    by (simp add: extend_def)
qed

theorem extend_failure_falls_back_witness:
  "extend (toy_model (-1) 0 1 False) toy_surrogate 3
     = Inr \<lparr>reductor = Some [2], rom = Some [2], new_reductor = Some [2], new_rom = Some [2]\<rparr>"
  using extend_failure_falls_back [of toy_surrogate "[2]" "[2]" "toy_model (-1) 0 1 False" 3]
  by (simp add: toy_surrogate_def toy_model_def)

text \<open>
  Claim C8 as stated fails for the call of \<^verbatim>\<open>extend\<close> inside \<^verbatim>\<open>__init__\<close>: no
  reduced model is committed yet, the handler reads \<^verbatim>\<open>self.rom\<close>, and the
  AttributeError leaves the constructor.
\<close>

theorem extend_failure_in_init_counterexample:
  "extend_basis (toy_model (-1) 0 1 False) [] (fom_solve (toy_model (-1) 0 1 False) 2) = None
   \<and> extend (toy_model (-1) 0 1 False)
        \<lparr>reductor = Some [], rom = None, new_reductor = None, new_rom = None\<rparr> 2
       = Inl AttributeError
   \<and> TRSurrogate (toy_model (-1) 0 1 False) [] 2 = Inl AttributeError"
  by (simp add: toy_model_def extend_def try_extension_def TRSurrogate_def)





subsection \<open>The line-search criterion\<close>

lemma solve_subproblem_InrD:
  assumes "solve_subproblem env cfg s = Inr p"
  shows "\<exists>m'. rom (surrogate s) = Some m'
             \<and> bfgs env m' (mu s)
                     (error_aware_line_search_criterion env m' (beta cfg) (radius s))
                 = Some (cand_mu p, cand_sub_data p)"
proof (cases "rom (surrogate s)")
  case None
  with assms show ?thesis by (simp add: solve_subproblem_def)
next
  case (Some m')
  from assms Some obtain a b where ab: "bfgs env m' (mu s)
      (error_aware_line_search_criterion env m' (beta cfg) (radius s)) = Some (a, b)"
    by (cases "bfgs env m' (mu s)
      (error_aware_line_search_criterion env m' (beta cfg) (radius s))")
      (auto simp: solve_subproblem_def)
  from assms Some ab have "cand_mu p = a \<and> cand_sub_data p = b"
    by (auto simp: solve_subproblem_def Let_def split: if_splits)
  with Some ab show ?thesis by simp
qed

lemma criterion_unfold:
  "current_value \<noteq> 0 \<Longrightarrow>
     error_aware_line_search_criterion env m b r new_mu current_value
       = (\<not> rom_estimate_output_error env m new_mu / \<bar>current_value\<bar> < b * r)"
  by (auto simp: error_aware_line_search_criterion_def np_true_divide_def Let_def)

lemma toy_solve_subproblem:
  "solve_subproblem (toy_model step err gain ok) (toy_config lo hi tol) toy_state
     = Inr \<lparr>cand_mu = 2 + step, cand_sub_data = [2, 3 / 2, 2 + step],
            compare_output = 3 / 2, estimate_output = err, current_output = 2 + step\<rparr>"
  by (simp add: solve_subproblem_def toy_model_def toy_state_def toy_surrogate_def Let_def)

lemma criterion_at_zero:
  "error_aware_line_search_criterion env m b r new_mu 0
     = (0 < rom_estimate_output_error env m new_mu)"
  by (auto simp: error_aware_line_search_criterion_def np_true_divide_def Let_def)

text \<open>
  Claim C6, as amended. The callback handed to the subproblem solver returns True (the
  step is refused) exactly when the quotient of the estimated error at the candidate and
  the absolute current value is at least \<^verbatim>\<open>beta * radius\<close>, in the comparison of
  floating-point numbers. For a current value other than zero this is exactly when the
  quotient is not below \<^verbatim>\<open>beta * radius\<close>. For a current value of zero the candidate
  is refused exactly when the estimate is positive: the quotient 0/0 is NaN, which is
  not refused. The callback handed over in an iteration is the one for the committed
  reduced model, \<^verbatim>\<open>beta\<close> and the radius of that iteration.
\<close>

theorem criterion_flags:
  "error_aware_line_search_criterion env m b r new_mu current_value
     = np_greater_equal
         (np_true_divide (rom_estimate_output_error env m new_mu) \<bar>current_value\<bar>)
         (Finite (b * r))
   \<and> (current_value \<noteq> 0 \<longrightarrow>
        error_aware_line_search_criterion env m b r new_mu current_value
          = (\<not> rom_estimate_output_error env m new_mu / \<bar>current_value\<bar> < b * r))
   \<and> (current_value = 0 \<longrightarrow>
        error_aware_line_search_criterion env m b r new_mu current_value
          = (0 < rom_estimate_output_error env m new_mu))
   \<and> (solve_subproblem env cfg s = Inr p \<longrightarrow>
        (\<exists>m'. rom (surrogate s) = Some m'
           \<and> bfgs env m' (mu s)
                 (error_aware_line_search_criterion env m' (beta cfg) (radius s))
               = Some (cand_mu p, cand_sub_data p)))"
proof (intro conjI impI)
  show "error_aware_line_search_criterion env m b r new_mu current_value
     = np_greater_equal
         (np_true_divide (rom_estimate_output_error env m new_mu) \<bar>current_value\<bar>)
         (Finite (b * r))"
    by (simp add: error_aware_line_search_criterion_def)
next
  assume "current_value \<noteq> 0"
  then show "error_aware_line_search_criterion env m b r new_mu current_value
          = (\<not> rom_estimate_output_error env m new_mu / \<bar>current_value\<bar> < b * r)"
    by (rule criterion_unfold)
next
  assume "current_value = 0"
  then show "error_aware_line_search_criterion env m b r new_mu current_value
          = (0 < rom_estimate_output_error env m new_mu)"
    by (simp add: criterion_at_zero)
next
  assume "solve_subproblem env cfg s = Inr p"
  then show "\<exists>m'. rom (surrogate s) = Some m'
           \<and> bfgs env m' (mu s)
                 (error_aware_line_search_criterion env m' (beta cfg) (radius s))
               = Some (cand_mu p, cand_sub_data p)"
    by (rule solve_subproblem_InrD)
qed

theorem criterion_flags_witness:
  "(3::real) \<noteq> 0
   \<and> error_aware_line_search_criterion (toy_model (-1) 1 1 True) [2] (95 / 100) (1 / 10) 1 3
   \<and> \<not> error_aware_line_search_criterion (toy_model (-1) (1 / 4) 1 True) [2] (95 / 100) 1 1 3
   \<and> error_aware_line_search_criterion (toy_model (-1) 1 1 True) [2] (95 / 100) (1 / 10) 1 0
   \<and> solve_subproblem (toy_model (-1) 1 1 True) (toy_config 0 2 (Finite 0)) toy_state
       = Inr \<lparr>cand_mu = 1, cand_sub_data = [2, 3 / 2, 1],
              compare_output = 3 / 2, estimate_output = 1, current_output = 1\<rparr>
   \<and> (\<exists>m'. rom (surrogate toy_state) = Some m'
         \<and> bfgs (toy_model (-1) 1 1 True) m' (mu toy_state)
             (error_aware_line_search_criterion (toy_model (-1) 1 1 True) m'
                (beta (toy_config 0 2 (Finite 0))) (radius toy_state))
           = Some (1, [2, 3 / 2, 1]))"
proof -
  let ?E = "toy_model (-1) 1 1 True"
  let ?C = "toy_config 0 2 (Finite 0)"
  let ?p = "\<lparr>cand_mu = 1::real, cand_sub_data = [2::real, 3 / 2, 1],
              compare_output = 3 / 2, estimate_output = 1, current_output = 1\<rparr>"
  have n: "(3::real) \<noteq> 0" by simp
  from criterion_flags [of ?E "[2]" "95 / 100" "1 / 10" 1 3] n
  have "error_aware_line_search_criterion ?E [2] (95 / 100) (1 / 10) 1 3
      = (\<not> rom_estimate_output_error ?E [2] 1 / \<bar>3\<bar> < 95 / 100 * (1 / 10))"
    by blast
  then have a: "error_aware_line_search_criterion ?E [2] (95 / 100) (1 / 10) 1 3"
    by (simp add: toy_model_def)
  from criterion_flags [of "toy_model (-1) (1 / 4) 1 True" "[2]" "95 / 100" 1 1 3] n
  have "error_aware_line_search_criterion (toy_model (-1) (1 / 4) 1 True) [2] (95 / 100) 1 1 3
      = (\<not> rom_estimate_output_error (toy_model (-1) (1 / 4) 1 True) [2] 1 / \<bar>3\<bar>
            < 95 / 100 * 1)"
    by blast
  then have b: "\<not> error_aware_line_search_criterion (toy_model (-1) (1 / 4) 1 True) [2]
      (95 / 100) 1 1 3"
    by (simp add: toy_model_def)
  from criterion_flags [of ?E "[2]" "95 / 100" "1 / 10" 1 0]
  have "error_aware_line_search_criterion ?E [2] (95 / 100) (1 / 10) 1 0
      = (0 < rom_estimate_output_error ?E [2] 1)"
    by blast
  then have z: "error_aware_line_search_criterion ?E [2] (95 / 100) (1 / 10) 1 0"
    by (simp add: toy_model_def)
  have c: "solve_subproblem ?E ?C toy_state = Inr ?p"
    using toy_solve_subproblem [of "-1" 1 1 True 0 2 "Finite 0"] by simp
  from criterion_flags [of ?E _ _ _ _ _ ?C toy_state ?p] c
  have "\<exists>m'. rom (surrogate toy_state) = Some m'
         \<and> bfgs ?E m' (mu toy_state)
             (error_aware_line_search_criterion ?E m' (beta ?C) (radius toy_state))
           = Some (cand_mu ?p, cand_sub_data ?p)"
    by blast
  then have d: "\<exists>m'. rom (surrogate toy_state) = Some m'
         \<and> bfgs ?E m' (mu toy_state)
             (error_aware_line_search_criterion ?E m' (beta ?C) (radius toy_state))
           = Some (1, [2, 3 / 2, 1])"
    by simp
  from n a b z c d show ?thesis by blast
qed

text \<open>
  Claim C6 as stated fails at a current value of zero with an estimate of zero: the
  callback does not refuse the candidate although the quotient, NaN, is not below
  \<^verbatim>\<open>beta * radius\<close>.
\<close>

theorem criterion_nan_counterexample:
  "rom_estimate_output_error (toy_model (-1) 0 1 True) [2] 1 = 0
   \<and> \<not> error_aware_line_search_criterion (toy_model (-1) 0 1 True) [2] (95 / 100) (1 / 10) 1 0
   \<and> np_true_divide (rom_estimate_output_error (toy_model (-1) 0 1 True) [2] 1) \<bar>0\<bar> = NaN
   \<and> \<not> np_less (np_true_divide (rom_estimate_output_error (toy_model (-1) 0 1 True) [2] 1) \<bar>0\<bar>)
         (Finite (95 / 100 * (1 / 10)))"
  by (simp add: toy_model_def error_aware_line_search_criterion_def np_true_divide_def)

subsection \<open>One pass of the loop\<close>

lemma solve_subproblem_outputs:
  assumes "solve_subproblem env cfg s = Inr p"
  shows "\<exists>m sd. rom (surrogate s) = Some m
           \<and> bfgs env m (mu s) (error_aware_line_search_criterion env m (beta cfg) (radius s))
               = Some (cand_mu p, sd)
           \<and> cand_sub_data p = sd
           \<and> sub_data_mus env sd \<noteq> []
           \<and> compare_output p
               = rom_output_at env m
                   (sub_data_mus env sd ! (if length (sub_data_mus env sd) > 1 then 1 else 0))
           \<and> estimate_output p = rom_estimate_output_error env m (cand_mu p)
           \<and> current_output p = rom_output_at env m (cand_mu p)"
proof (cases "rom (surrogate s)")
  case None
  with assms show ?thesis by (simp add: solve_subproblem_def)
next
  case (Some m)
  from assms Some obtain a b where ab: "bfgs env m (mu s)
      (error_aware_line_search_criterion env m (beta cfg) (radius s)) = Some (a, b)"
    by (cases "bfgs env m (mu s)
      (error_aware_line_search_criterion env m (beta cfg) (radius s))")
      (auto simp: solve_subproblem_def)
  from assms Some ab
  have "cand_mu p = a \<and> cand_sub_data p = b \<and> sub_data_mus env b \<noteq> []
        \<and> compare_output p
               = rom_output_at env m
                   (sub_data_mus env b ! (if length (sub_data_mus env b) > 1 then 1 else 0))
        \<and> estimate_output p = rom_estimate_output_error env m a
        \<and> current_output p = rom_output_at env m a"
    by (auto simp: solve_subproblem_def Let_def split: if_splits)
  with Some ab show ?thesis by simp
qed

lemma accept_pending:
  assumes "new_rom sur = Some m'"
  shows "accept sur = Inr (sur\<lparr>rom := Some m', reductor := new_reductor sur,
                             new_rom := None, new_reductor := None\<rparr>)"
  using assms by (simp add: accept_def)

lemma output_checks_optimistic:
  assumes "current_output p + estimate_output p < compare_output p"
    and "extend env (surrogate s) (cand_mu p) = Inr sur"
  shows "output_checks env cfg s p =
           Inr \<lparr>rejected = False,
                radius_after =
                  (if old_fom_output s - fom_output env (cand_mu p)
                        \<ge> radius_tol cfg * (old_rom_output s - current_output p)
                   then radius s / shrink_factor cfg else radius s),
                surrogate_after = sur,
                output_after = current_output p\<rparr>"
  using assms by (simp add: output_checks_def Let_def)

lemma output_checks_pessimistic:
  assumes "\<not> current_output p + estimate_output p < compare_output p"
    and "current_output p - estimate_output p > compare_output p"
  shows "output_checks env cfg s p =
           Inr \<lparr>rejected = True,
                radius_after = radius s * shrink_factor cfg,
                surrogate_after = surrogate s,
                output_after = current_output p\<rparr>"
  using assms by (simp add: output_checks_def)

lemma output_checks_ambiguous:
  assumes "\<not> current_output p + estimate_output p < compare_output p"
    and "\<not> current_output p - estimate_output p > compare_output p"
    and "extend env (surrogate s) (cand_mu p) = Inr sur"
    and "new_rom sur = Some m'"
  shows "output_checks env cfg s p =
           (if rom_output_at env m' (cand_mu p) \<le> compare_output p then
              Inr \<lparr>rejected = False,
                   radius_after =
                     (if old_fom_output s - fom_output env (cand_mu p)
                           \<ge> radius_tol cfg * (old_rom_output s - rom_output_at env m' (cand_mu p))
                      then radius s / shrink_factor cfg else radius s),
                   surrogate_after = sur,
                   output_after = rom_output_at env m' (cand_mu p)\<rparr>
            else
              Inr \<lparr>rejected = True,
                   radius_after = radius s * shrink_factor cfg,
                   surrogate_after = sur,
                   output_after = rom_output_at env m' (cand_mu p)\<rparr>)"
  using assms by (simp add: output_checks_def new_rom_output_def Let_def)

lemma handle_rejection_rejected:
  assumes "rejected v"
  shows "handle_rejection env s p v =
           Inr (s\<lparr>radius := radius_after v, surrogate := reject (surrogate_after v),
                  iteration := iteration s + 1\<rparr>)"
  using assms by (simp add: handle_rejection_def Let_def)

lemma handle_rejection_accepted:
  assumes "\<not> rejected v" and "accept (surrogate_after v) = Inr sur'"
  shows "handle_rejection env s p v =
           Inr (s\<lparr>mu := cand_mu p,
                  radius := radius_after v,
                  surrogate := sur',
                  mu_norm := linalg_norm env (cand_mu p),
                  data_mus := data_mus s @ [cand_mu p],
                  data_subproblem_data := data_subproblem_data s @ [cand_sub_data p],
                  update_norms := update_norms s
                     @ [linalg_norm env (minus_mu env (cand_mu p) (mu s))],
                  foc_norms := foc_norms s
                     @ [linalg_norm env (minus_mu env (cand_mu p)
                          (clip env (minus_mu env (cand_mu p) (fom_gradient env (cand_mu p)))))],
                  old_rom_output := output_after v,
                  first_order_criticality :=
                     linalg_norm env (minus_mu env (cand_mu p)
                          (clip env (minus_mu env (cand_mu p) (fom_gradient env (cand_mu p))))),
                  iteration := iteration s + 1\<rparr>)"
  using assms by (simp add: handle_rejection_def Let_def)

subsection \<open>The three-way test\<close>

text \<open>
  In the theorems of this subsection \<open>p\<close> is what \<open>solve_subproblem\<close> returns in the
  iteration: \<open>cand_mu p\<close> is the candidate, \<open>current_output p\<close> the output of the
  committed reduced model at the candidate, \<open>estimate_output p\<close> its estimated error
  there and \<open>compare_output p\<close> the output of the committed reduced model at the second
  entry of the solver's list of iterates, or at the first when the list has one entry
  (lemma \<open>solve_subproblem_outputs\<close>).
\<close>



lemma toy_extend:
  "extend (toy_model step err gain True) toy_surrogate x
     = Inr \<lparr>reductor = Some [2], rom = Some [2], new_reductor = Some [2, x], new_rom = Some [2, x]\<rparr>"
  by (simp add: toy_model_def toy_surrogate_def extend_def try_extension_def)




subsection \<open>Acceptance and rejection\<close>

lemma tr_iteration_unfold:
  assumes "solve_subproblem env cfg s = Inr p"
    and "output_checks env cfg s p = Inr v"
    and "handle_rejection env s p v = Inr s1"
  shows "tr_iteration env cfg s =
           (if \<not> isfinite (mu_norm s1) then Inl (TRError FailedToConverge) else Inr s1)"
  using assms by (simp add: tr_iteration_def)

lemma extend_Inr_form:
  assumes "extend env s x = Inr s'"
  shows "\<exists>a b. s' = s\<lparr>new_reductor := a, new_rom := b\<rparr> \<and> b \<noteq> None"
  using assms by (auto simp: extend_def Let_def split: option.splits)

lemma reject_pending: "reject (s\<lparr>new_reductor := a, new_rom := b\<rparr>) = reject s"
  by (simp add: reject_def)

lemma output_checks_rejected:
  assumes oc: "output_checks env cfg s p = Inr v" and rej: "rejected v"
  shows "radius_after v = radius s * shrink_factor cfg
         \<and> reject (surrogate_after v) = reject (surrogate s)"
proof (cases "current_output p + estimate_output p < compare_output p")
  case True
  with oc rej show ?thesis
    by (auto simp: output_checks_def Let_def split: sum.splits)
next
  case nopt: False
  show ?thesis
  proof (cases "current_output p - estimate_output p > compare_output p")
    case True
    from output_checks_pessimistic [OF nopt True, of env cfg s] oc show ?thesis
      by auto
  next
    case False
    from oc nopt False obtain sur where sur: "extend env (surrogate s) (cand_mu p) = Inr sur"
      by (auto simp: output_checks_def split: sum.splits)
    from extend_Inr_form [OF sur] obtain a b where
      ab: "sur = (surrogate s)\<lparr>new_reductor := a, new_rom := b\<rparr>" and "b \<noteq> None"
      by blast
    then obtain m' where m': "new_rom sur = Some m'" by auto
    from output_checks_ambiguous [OF nopt False sur m', of cfg] oc rej
    have "radius_after v = radius s * shrink_factor cfg \<and> surrogate_after v = sur"
      by (auto split: if_splits)
    with ab show ?thesis by (simp add: reject_pending)
  qed
qed

lemma output_checks_accepted:
  assumes oc: "output_checks env cfg s p = Inr v" and nrej: "\<not> rejected v"
  shows "\<exists>sur'. accept (surrogate_after v) = Inr sur'"
proof -
  from oc nrej obtain sur where sur: "extend env (surrogate s) (cand_mu p) = Inr sur"
    and sa: "surrogate_after v = sur"
    by (auto simp: output_checks_def Let_def split: sum.splits if_splits)
  from extend_Inr_form [OF sur] obtain m' where "new_rom sur = Some m'" by auto
  from accept_pending [OF this] sa show ?thesis by simp
qed

lemma handle_rejection_total:
  assumes oc: "output_checks env cfg s p = Inr v"
  shows "\<exists>s1. handle_rejection env s p v = Inr s1"
proof (cases "rejected v")
  case True
  from handle_rejection_rejected [OF True] show ?thesis by blast
next
  case False
  from output_checks_accepted [OF oc False] obtain sur' where
    "accept (surrogate_after v) = Inr sur'" by blast
  from handle_rejection_accepted [OF False this] show ?thesis by blast
qed

text \<open>
  Claim C4. An iteration that rejects its candidate and is completed leaves the state as
  it was, but for the radius, multiplied by \<^verbatim>\<open>shrink_factor\<close>, the iteration counter,
  and the placeholders of the pending pair, which are reset: the committed reductor and
  reduced model and \<^verbatim>\<open>mu\<close> are those from before the iteration. With no pair pending
  before the iteration, as in every iteration of the loop, the whole surrogate is as before.
\<close>

theorem rejected_iteration_rolls_back:
  assumes sp: "solve_subproblem env cfg s = Inr p"
    and oc: "output_checks env cfg s p = Inr v"
    and rej: "rejected v"
    and it: "tr_iteration env cfg s = Inr s'"
  shows "s' = s\<lparr>radius := radius s * shrink_factor cfg,
                surrogate := (surrogate s)\<lparr>new_rom := None, new_reductor := None\<rparr>,
                iteration := iteration s + 1\<rparr>
         \<and> rom (surrogate s') = rom (surrogate s)
         \<and> reductor (surrogate s') = reductor (surrogate s)
         \<and> mu s' = mu s
         \<and> (new_rom (surrogate s) = None \<and> new_reductor (surrogate s) = None
              \<longrightarrow> surrogate s' = surrogate s)"
proof -
  from output_checks_rejected [OF oc rej]
  have r: "radius_after v = radius s * shrink_factor cfg"
    and j: "reject (surrogate_after v) = reject (surrogate s)"
    by simp_all
  from handle_rejection_rejected [OF rej, of env s p] r j
  have hr: "handle_rejection env s p v =
      Inr (s\<lparr>radius := radius s * shrink_factor cfg,
             surrogate := (surrogate s)\<lparr>new_rom := None, new_reductor := None\<rparr>,
             iteration := iteration s + 1\<rparr>)"
    by (simp add: reject_def)
  from tr_iteration_unfold [OF sp oc hr] it
  have eq: "s' = s\<lparr>radius := radius s * shrink_factor cfg,
                surrogate := (surrogate s)\<lparr>new_rom := None, new_reductor := None\<rparr>,
                iteration := iteration s + 1\<rparr>"
    by (simp split: if_splits)
  then show ?thesis by simp
qed

lemma toy_pessimistic_checks:
  "output_checks (toy_model 1 0 1 True) (toy_config lo hi tol) toy_state
      \<lparr>cand_mu = 3, cand_sub_data = [2, 3 / 2, 3],
       compare_output = 3 / 2, estimate_output = 0, current_output = 3\<rparr>
     = Inr \<lparr>rejected = True, radius_after = 1 / 20, surrogate_after = toy_surrogate,
            output_after = 3\<rparr>"
  by (simp add: output_checks_def toy_state_def toy_config_def)

lemma toy_pessimistic_iteration:
  "tr_iteration (toy_model 1 0 1 True) (toy_config lo hi tol) toy_state
     = Inr (toy_state\<lparr>radius := 1 / 20, iteration := 1\<rparr>)"
proof -
  have hr: "handle_rejection (toy_model 1 0 1 True) toy_state
      \<lparr>cand_mu = 3, cand_sub_data = [2, 3 / 2, 3],
       compare_output = 3 / 2, estimate_output = 0, current_output = 3\<rparr>
      \<lparr>rejected = True, radius_after = 1 / 20, surrogate_after = toy_surrogate,
            output_after = 3\<rparr> = Inr (toy_state\<lparr>radius := 1 / 20, iteration := 1\<rparr>)"
    by (simp add: handle_rejection_def Let_def reject_def toy_state_def toy_surrogate_def)
  have sp: "solve_subproblem (toy_model 1 0 1 True) (toy_config lo hi tol) toy_state
     = Inr \<lparr>cand_mu = 3, cand_sub_data = [2, 3 / 2, 3],
            compare_output = 3 / 2, estimate_output = 0, current_output = 3\<rparr>"
    using toy_solve_subproblem [of 1 0 1 True lo hi tol] by simp
  from tr_iteration_unfold [OF sp toy_pessimistic_checks hr]
  show ?thesis by (simp add: toy_state_def)
qed

theorem rejected_iteration_rolls_back_witness:
  "solve_subproblem (toy_model 1 0 1 True) (toy_config 0 2 (Finite 0)) toy_state
     = Inr \<lparr>cand_mu = 3, cand_sub_data = [2, 3 / 2, 3],
            compare_output = 3 / 2, estimate_output = 0, current_output = 3\<rparr>
   \<and> output_checks (toy_model 1 0 1 True) (toy_config 0 2 (Finite 0)) toy_state
        \<lparr>cand_mu = 3, cand_sub_data = [2, 3 / 2, 3],
         compare_output = 3 / 2, estimate_output = 0, current_output = 3\<rparr>
      = Inr \<lparr>rejected = True, radius_after = 1 / 20, surrogate_after = toy_surrogate,
             output_after = 3\<rparr>
   \<and> tr_iteration (toy_model 1 0 1 True) (toy_config 0 2 (Finite 0)) toy_state
      = Inr (toy_state\<lparr>radius := 1 / 20, iteration := 1\<rparr>)
   \<and> new_rom (surrogate toy_state) = None \<and> new_reductor (surrogate toy_state) = None
   \<and> surrogate (toy_state\<lparr>radius := 1 / 20, iteration := 1\<rparr>) = surrogate toy_state
   \<and> mu (toy_state\<lparr>radius := 1 / 20, iteration := 1\<rparr>) = mu toy_state"
proof -
  let ?E = "toy_model 1 0 1 True"
  let ?C = "toy_config 0 2 (Finite 0)"
  let ?p = "\<lparr>cand_mu = 3::real, cand_sub_data = [2::real, 3 / 2, 3],
            compare_output = 3 / 2, estimate_output = 0, current_output = 3\<rparr>"
  let ?v = "\<lparr>rejected = True, radius_after = 1 / 20, surrogate_after = toy_surrogate,
             output_after = 3\<rparr>"
  have sp: "solve_subproblem ?E ?C toy_state = Inr ?p"
    using toy_solve_subproblem [of 1 0 1 True 0 2 "Finite 0"] by simp
  have oc: "output_checks ?E ?C toy_state ?p = Inr ?v"
    by (rule toy_pessimistic_checks)
  have rej: "rejected ?v" by simp
  have it: "tr_iteration ?E ?C toy_state = Inr (toy_state\<lparr>radius := 1 / 20, iteration := 1\<rparr>)"
    by (rule toy_pessimistic_iteration)
  have pn: "new_rom (surrogate toy_state) = None \<and> new_reductor (surrogate toy_state) = None"
    by (simp add: toy_state_def toy_surrogate_def)
  from rejected_iteration_rolls_back [OF sp oc rej it] pn
  have "surrogate (toy_state\<lparr>radius := 1 / 20, iteration := 1\<rparr>) = surrogate toy_state
      \<and> mu (toy_state\<lparr>radius := 1 / 20, iteration := 1\<rparr>) = mu toy_state"
    by blast
  with sp oc it pn show ?thesis by blast
qed

subsection \<open>The iteration record\<close>

lemma tr_iteration_InrD:
  assumes "tr_iteration env cfg s = Inr s'"
  shows "\<exists>p v. solve_subproblem env cfg s = Inr p \<and> output_checks env cfg s p = Inr v
           \<and> handle_rejection env s p v = Inr s' \<and> isfinite (mu_norm s')"
  using assms by (auto simp: tr_iteration_def split: sum.splits if_splits)

lemma iteration_appends:
  assumes sp: "solve_subproblem env cfg s = Inr p"
    and oc: "output_checks env cfg s p = Inr v"
    and it: "tr_iteration env cfg s = Inr s'"
  shows "if rejected v then
           data_mus s' = data_mus s
           \<and> data_subproblem_data s' = data_subproblem_data s
           \<and> update_norms s' = update_norms s
           \<and> foc_norms s' = foc_norms s
         else
           data_mus s' = data_mus s @ [cand_mu p]
           \<and> data_subproblem_data s' = data_subproblem_data s @ [cand_sub_data p]
           \<and> update_norms s' = update_norms s @ [linalg_norm env (minus_mu env (cand_mu p) (mu s))]
           \<and> foc_norms s' = foc_norms s @ [first_order_criticality s']"
proof -
  from tr_iteration_InrD [OF it] sp oc have hr: "handle_rejection env s p v = Inr s'"
    by auto
  show ?thesis
  proof (cases "rejected v")
    case True
    from handle_rejection_rejected [OF True, of env s p] hr True show ?thesis by auto
  next
    case False
    from output_checks_accepted [OF oc False] obtain sur' where
      "accept (surrogate_after v) = Inr sur'" by blast
    from handle_rejection_accepted [OF False this, of env s p] hr False show ?thesis by auto
  qed
qed

lemma iteration_lengths:
  assumes it: "tr_iteration env cfg s = Inr s'"
  shows "\<exists>a b c d. data_mus s' = data_mus s @ a
           \<and> data_subproblem_data s' = data_subproblem_data s @ b
           \<and> update_norms s' = update_norms s @ c
           \<and> foc_norms s' = foc_norms s @ d
           \<and> length a = (if iteration_rejected env cfg s then 0 else 1)
           \<and> length b = length a \<and> length c = length a \<and> length d = length a"
proof -
  from tr_iteration_InrD [OF it] obtain p v where sp: "solve_subproblem env cfg s = Inr p"
    and oc: "output_checks env cfg s p = Inr v" by blast
  from sp oc have ir: "iteration_rejected env cfg s = rejected v"
    by (simp add: iteration_rejected_def)
  note ap = iteration_appends [OF sp oc it]
  show ?thesis
  proof (cases "rejected v")
    case True
    with ap ir show ?thesis by simp
  next
    case False
    with ap have e: "data_mus s' = data_mus s @ [cand_mu p]"
      "data_subproblem_data s' = data_subproblem_data s @ [cand_sub_data p]"
      "update_norms s' = update_norms s @ [linalg_norm env (minus_mu env (cand_mu p) (mu s))]"
      "foc_norms s' = foc_norms s @ [first_order_criticality s']"
      by simp_all
    show ?thesis
      apply (rule exI [of _ "[cand_mu p]"])
      apply (rule exI [of _ "[cand_sub_data p]"])
      apply (rule exI [of _ "[linalg_norm env (minus_mu env (cand_mu p) (mu s))]"])
      apply (rule exI [of _ "[first_order_criticality s']"])
      using e ir False apply simp
      done
  qed
qed

lemma loop_lengths:
  "tr_loop env cfg s = Inr sf \<Longrightarrow>
     \<exists>a b c d. data_mus sf = data_mus s @ a
           \<and> data_subproblem_data sf = data_subproblem_data s @ b
           \<and> update_norms sf = update_norms s @ c
           \<and> foc_norms sf = foc_norms s @ d
           \<and> length a = accepted_iterations env cfg s
           \<and> length b = length a \<and> length c = length a \<and> length d = length a"
proof (induction env cfg s rule: tr_loop.induct)
  case (1 env cfg s)
  show ?case
  proof (cases "termination_check cfg s")
    case Converged
    with "1.prems" have "sf = s" by (simp add: tr_loop.simps)
    moreover from Converged have "accepted_iterations env cfg s = 0"
      by (simp add: accepted_iterations.simps)
    ultimately show ?thesis by simp
  next
    case BudgetExhausted
    with "1.prems" show ?thesis by (simp add: tr_loop.simps)
  next
    case Continue
    with "1.prems" obtain s' where it: "tr_iteration env cfg s = Inr s'"
      and lp: "tr_loop env cfg s' = Inr sf"
      by (auto simp: tr_loop.simps [of env cfg s] split: sum.splits)
    from "1.IH" [OF Continue it lp] obtain a b c d where
      r: "data_mus sf = data_mus s' @ a" "data_subproblem_data sf = data_subproblem_data s' @ b"
        "update_norms sf = update_norms s' @ c" "foc_norms sf = foc_norms s' @ d"
        "length a = accepted_iterations env cfg s'"
        "length b = length a" "length c = length a" "length d = length a"
      by blast
    from iteration_lengths [OF it] obtain a0 b0 c0 d0 where
      q: "data_mus s' = data_mus s @ a0" "data_subproblem_data s' = data_subproblem_data s @ b0"
        "update_norms s' = update_norms s @ c0" "foc_norms s' = foc_norms s @ d0"
        "length a0 = (if iteration_rejected env cfg s then 0 else 1)"
        "length b0 = length a0" "length c0 = length a0" "length d0 = length a0"
      by blast
    from Continue it have ai: "accepted_iterations env cfg s
        = (if iteration_rejected env cfg s then 0 else 1) + accepted_iterations env cfg s'"
      by (simp add: accepted_iterations.simps [of env cfg s])
    show ?thesis
      apply (rule exI [of _ "a0 @ a"])
      apply (rule exI [of _ "b0 @ b"])
      apply (rule exI [of _ "c0 @ c"])
      apply (rule exI [of _ "d0 @ d"])
      using r q ai apply simp
      done
  qed
qed

lemma trust_region_InrD:
  assumes "trust_region env cfg red mu0 radius0 = Inr (x, d)"
  shows "\<exists>sur r0 sf. tr_loop env cfg
                          \<lparr>mu = mu0, radius = radius0, surrogate = sur,
                           mu_norm = linalg_norm env mu0,
                           data_mus = [mu0], data_subproblem_data = [],
                           update_norms = [], foc_norms = [],
                           old_rom_output = r0, old_fom_output = fom_output env mu0,
                           first_order_criticality = PosInf, iteration = 0\<rparr> = Inr sf
           \<and> x = mu sf
           \<and> d = \<lparr>subproblem_data = data_subproblem_data sf, mus = data_mus sf,
                   data_update_norms = update_norms sf, data_foc_norms = foc_norms sf,
                   iterations = iteration sf\<rparr>"
  using assms by (auto simp: trust_region_def split: if_splits sum.splits)

text \<open>
  Claim C9, as amended. An iteration that accepts its candidate appends exactly one
  entry to each of the four lists of the record: the candidate to the list of
  parameters, the data of its subproblem, one norm to the list of norms the loop keeps
  (here the norm of the update \<^verbatim>\<open>mu - old_mu\<close>) and its criticality norm; an
  iteration that rejects its candidate appends to none. When the loop ends, each list
  is the list from the start followed by as many entries as iterations have accepted,
  and the record that \<^verbatim>\<open>trust_region\<close> returns holds the initial guess followed by
  one parameter for each entry of the other lists.
\<close>

theorem iteration_record_append_only:
  "(solve_subproblem env cfg s = Inr p \<longrightarrow> output_checks env cfg s p = Inr v
      \<longrightarrow> tr_iteration env cfg s = Inr s' \<longrightarrow>
      (if rejected v then
         data_mus s' = data_mus s
         \<and> data_subproblem_data s' = data_subproblem_data s
         \<and> update_norms s' = update_norms s
         \<and> foc_norms s' = foc_norms s
       else
         data_mus s' = data_mus s @ [cand_mu p]
         \<and> data_subproblem_data s' = data_subproblem_data s @ [cand_sub_data p]
         \<and> update_norms s' = update_norms s @ [linalg_norm env (minus_mu env (cand_mu p) (mu s))]
         \<and> foc_norms s' = foc_norms s @ [first_order_criticality s']))
   \<and> (tr_loop env cfg s = Inr sf \<longrightarrow>
        (\<exists>a b c d. data_mus sf = data_mus s @ a
           \<and> data_subproblem_data sf = data_subproblem_data s @ b
           \<and> update_norms sf = update_norms s @ c
           \<and> foc_norms sf = foc_norms s @ d
           \<and> length a = accepted_iterations env cfg s
           \<and> length b = length a \<and> length c = length a \<and> length d = length a))
   \<and> (trust_region env cfg red mu0 radius0 = Inr (x, dat) \<longrightarrow>
        (\<exists>a. mus dat = mu0 # a
           \<and> length (subproblem_data dat) = length a
           \<and> length (data_update_norms dat) = length a
           \<and> length (data_foc_norms dat) = length a))"
proof (intro conjI impI)
  assume "solve_subproblem env cfg s = Inr p" "output_checks env cfg s p = Inr v"
    "tr_iteration env cfg s = Inr s'"
  then show "if rejected v then
         data_mus s' = data_mus s
         \<and> data_subproblem_data s' = data_subproblem_data s
         \<and> update_norms s' = update_norms s
         \<and> foc_norms s' = foc_norms s
       else
         data_mus s' = data_mus s @ [cand_mu p]
         \<and> data_subproblem_data s' = data_subproblem_data s @ [cand_sub_data p]
         \<and> update_norms s' = update_norms s @ [linalg_norm env (minus_mu env (cand_mu p) (mu s))]
         \<and> foc_norms s' = foc_norms s @ [first_order_criticality s']"
    by (rule iteration_appends)
next
  assume "tr_loop env cfg s = Inr sf"
  then show "\<exists>a b c d. data_mus sf = data_mus s @ a
           \<and> data_subproblem_data sf = data_subproblem_data s @ b
           \<and> update_norms sf = update_norms s @ c
           \<and> foc_norms sf = foc_norms s @ d
           \<and> length a = accepted_iterations env cfg s
           \<and> length b = length a \<and> length c = length a \<and> length d = length a"
    by (rule loop_lengths)
next
  assume "trust_region env cfg red mu0 radius0 = Inr (x, dat)"
  from trust_region_InrD [OF this] obtain sur r0 sf where
    lp: "tr_loop env cfg
                          \<lparr>mu = mu0, radius = radius0, surrogate = sur,
                           mu_norm = linalg_norm env mu0,
                           data_mus = [mu0], data_subproblem_data = [],
                           update_norms = [], foc_norms = [],
                           old_rom_output = r0, old_fom_output = fom_output env mu0,
                           first_order_criticality = PosInf, iteration = 0\<rparr> = Inr sf"
    and d: "dat = \<lparr>subproblem_data = data_subproblem_data sf, mus = data_mus sf,
                   data_update_norms = update_norms sf, data_foc_norms = foc_norms sf,
                   iterations = iteration sf\<rparr>"
    by blast
  from loop_lengths [OF lp] obtain a b c e where
    "data_mus sf = [mu0] @ a" "data_subproblem_data sf = b" "update_norms sf = c"
    "foc_norms sf = e" "length b = length a" "length c = length a" "length e = length a"
    by auto
  with d show "\<exists>a. mus dat = mu0 # a
           \<and> length (subproblem_data dat) = length a
           \<and> length (data_update_norms dat) = length a
           \<and> length (data_foc_norms dat) = length a"
    by simp
qed

lemma toy_optimistic_checks:
  "output_checks (toy_model (-1) 0 1 True) (toy_config lo hi tol) toy_state
      \<lparr>cand_mu = 1, cand_sub_data = [2, 3 / 2, 1],
       compare_output = 3 / 2, estimate_output = 0, current_output = 1\<rparr>
     = Inr \<lparr>rejected = False, radius_after = 1 / 5,
            surrogate_after = \<lparr>reductor = Some [2], rom = Some [2],
                                new_reductor = Some [2, 1], new_rom = Some [2, 1]\<rparr>,
            output_after = 1\<rparr>"
  by (simp add: output_checks_def toy_extend toy_state_def Let_def fom_output_def toy_config_def)
    (simp add: toy_model_def)

lemma toy_optimistic_handle:
  "handle_rejection (toy_model (-1) 0 1 True) toy_state
      \<lparr>cand_mu = 1, cand_sub_data = [2, 3 / 2, 1],
       compare_output = 3 / 2, estimate_output = 0, current_output = 1\<rparr>
      \<lparr>rejected = False, radius_after = 1 / 5,
            surrogate_after = \<lparr>reductor = Some [2], rom = Some [2],
                                new_reductor = Some [2, 1], new_rom = Some [2, 1]\<rparr>,
            output_after = 1\<rparr>
     = Inr toy_state_accepted"
  by (simp add: handle_rejection_def Let_def accept_def toy_state_def toy_state_accepted_def
      fom_gradient_def toy_model_def)

lemma toy_optimistic_solve:
  "solve_subproblem (toy_model (-1) 0 1 True) (toy_config lo hi tol) toy_state
     = Inr \<lparr>cand_mu = 1, cand_sub_data = [2, 3 / 2, 1],
            compare_output = 3 / 2, estimate_output = 0, current_output = 1\<rparr>"
  using toy_solve_subproblem [of "-1" 0 1 True lo hi tol] by simp

lemma toy_optimistic_iteration:
  "tr_iteration (toy_model (-1) 0 1 True) (toy_config lo hi tol) toy_state = Inr toy_state_accepted"
  using tr_iteration_unfold [OF toy_optimistic_solve toy_optimistic_checks toy_optimistic_handle]
  by (simp add: toy_state_accepted_def)

lemma toy_accepted_loop:
  "tr_loop (toy_model (-1) 0 1 True) (toy_config 0 5 (Finite 2)) toy_state = Inr toy_state_accepted"
proof -
  have c0: "termination_check (toy_config 0 5 (Finite 2)) toy_state = Continue"
    by (simp add: termination_check_def toy_config_def toy_state_def)
  have c1: "termination_check (toy_config 0 5 (Finite 2)) toy_state_accepted = Converged"
    by (simp add: termination_check_def toy_config_def toy_state_accepted_def)
  from c1 have l1: "tr_loop (toy_model (-1) 0 1 True) (toy_config 0 5 (Finite 2)) toy_state_accepted
      = Inr toy_state_accepted"
    by (simp add: tr_loop.simps)
  from c0 toy_optimistic_iteration [of 0 5 "Finite 2"] l1 show ?thesis
    by (simp add: tr_loop.simps [of _ _ toy_state])
qed

lemma toy_accepted_count:
  "accepted_iterations (toy_model (-1) 0 1 True) (toy_config 0 5 (Finite 2)) toy_state = 1"
proof -
  have c0: "termination_check (toy_config 0 5 (Finite 2)) toy_state = Continue"
    by (simp add: termination_check_def toy_config_def toy_state_def)
  have c1: "termination_check (toy_config 0 5 (Finite 2)) toy_state_accepted = Converged"
    by (simp add: termination_check_def toy_config_def toy_state_accepted_def)
  from c1 have l1: "accepted_iterations (toy_model (-1) 0 1 True) (toy_config 0 5 (Finite 2))
      toy_state_accepted = 0"
    by (simp add: accepted_iterations.simps)
  have nr: "\<not> iteration_rejected (toy_model (-1) 0 1 True) (toy_config 0 5 (Finite 2)) toy_state"
    by (simp add: iteration_rejected_def toy_optimistic_solve toy_optimistic_checks)
  from c0 toy_optimistic_iteration [of 0 5 "Finite 2"] l1 nr show ?thesis
    by (simp add: accepted_iterations.simps [of _ _ toy_state])
qed

lemma toy_trust_region:
  "trust_region (toy_model (-1) 0 1 True) (toy_config 0 5 (Finite 2)) [] 2 (1 / 10)
     = Inr (1, \<lparr>subproblem_data = [[2, 3 / 2, 1]], mus = [2, 1],
                data_update_norms = [Finite 1], data_foc_norms = [Finite 1], iterations = 1\<rparr>)"
proof -
  have sur: "TRSurrogate (toy_model (-1) 0 1 True) [] 2 = Inr toy_surrogate"
    by (simp add: TRSurrogate_def extend_def try_extension_def accept_def toy_model_def
        toy_surrogate_def)
  have r0: "rom_output (toy_model (-1) 0 1 True) toy_surrogate 2 = Inr 2"
    by (simp add: rom_output_def toy_surrogate_def toy_model_def)
  have s0: "\<lparr>mu = 2, radius = 1 / 10, surrogate = toy_surrogate,
             mu_norm = linalg_norm (toy_model (-1) 0 1 True) 2,
             data_mus = [2], data_subproblem_data = [],
             update_norms = [], foc_norms = [],
             old_rom_output = 2, old_fom_output = fom_output (toy_model (-1) 0 1 True) 2,
             first_order_criticality = PosInf, iteration = 0\<rparr> = toy_state"
    by (simp add: toy_state_def toy_model_def fom_output_def)
  have sfz: "shrink_factor (toy_config 0 5 (Finite 2)) \<noteq> 0"
    by (simp add: toy_config_def)
  show ?thesis
    using sfz by (simp add: trust_region_def sur r0 s0 toy_accepted_loop)
      (simp add: toy_state_accepted_def)
qed

theorem iteration_record_append_only_witness:
  "solve_subproblem (toy_model 1 0 1 True) (toy_config 0 2 (Finite 0)) toy_state
     = Inr \<lparr>cand_mu = 3, cand_sub_data = [2, 3 / 2, 3],
            compare_output = 3 / 2, estimate_output = 0, current_output = 3\<rparr>
   \<and> output_checks (toy_model 1 0 1 True) (toy_config 0 2 (Finite 0)) toy_state
        \<lparr>cand_mu = 3, cand_sub_data = [2, 3 / 2, 3],
         compare_output = 3 / 2, estimate_output = 0, current_output = 3\<rparr>
      = Inr \<lparr>rejected = True, radius_after = 1 / 20, surrogate_after = toy_surrogate,
             output_after = 3\<rparr>
   \<and> tr_iteration (toy_model 1 0 1 True) (toy_config 0 2 (Finite 0)) toy_state
      = Inr (toy_state\<lparr>radius := 1 / 20, iteration := 1\<rparr>)
   \<and> data_mus (toy_state\<lparr>radius := 1 / 20, iteration := 1\<rparr>) = data_mus toy_state
   \<and> foc_norms (toy_state\<lparr>radius := 1 / 20, iteration := 1\<rparr>) = foc_norms toy_state
   \<and> tr_iteration (toy_model (-1) 0 1 True) (toy_config 0 5 (Finite 2)) toy_state
      = Inr toy_state_accepted
   \<and> data_mus toy_state_accepted = data_mus toy_state @ [1]
   \<and> data_subproblem_data toy_state_accepted = data_subproblem_data toy_state @ [[2, 3 / 2, 1]]
   \<and> foc_norms toy_state_accepted = foc_norms toy_state @ [Finite 1]
   \<and> tr_loop (toy_model (-1) 0 1 True) (toy_config 0 5 (Finite 2)) toy_state
      = Inr toy_state_accepted
   \<and> accepted_iterations (toy_model (-1) 0 1 True) (toy_config 0 5 (Finite 2)) toy_state = 1
   \<and> length (data_mus toy_state_accepted) = length (data_mus toy_state) + 1
   \<and> trust_region (toy_model (-1) 0 1 True) (toy_config 0 5 (Finite 2)) [] 2 (1 / 10)
     = Inr (1, \<lparr>subproblem_data = [[2, 3 / 2, 1]], mus = [2, 1],
                data_update_norms = [Finite 1], data_foc_norms = [Finite 1], iterations = 1\<rparr>)
   \<and> (\<exists>a. mus \<lparr>subproblem_data = [[2::real, 3 / 2, 1]], mus = [2::real, 1],
                data_update_norms = [Finite 1], data_foc_norms = [Finite 1], iterations = 1\<rparr>
            = 2 # a \<and> length a = 1)"
proof -
  let ?Er = "toy_model 1 0 1 True"
  let ?Cr = "toy_config 0 2 (Finite 0)"
  let ?pr = "\<lparr>cand_mu = 3::real, cand_sub_data = [2::real, 3 / 2, 3],
            compare_output = 3 / 2, estimate_output = 0, current_output = 3\<rparr>"
  let ?vr = "\<lparr>rejected = True, radius_after = 1 / 20, surrogate_after = toy_surrogate,
             output_after = 3\<rparr>"
  let ?sr = "toy_state\<lparr>radius := 1 / 20, iteration := 1\<rparr>"
  let ?Ea = "toy_model (-1) 0 1 True"
  let ?Ca = "toy_config 0 5 (Finite 2)"
  let ?pa = "\<lparr>cand_mu = 1::real, cand_sub_data = [2::real, 3 / 2, 1],
       compare_output = 3 / 2, estimate_output = 0, current_output = 1\<rparr>"
  let ?va = "\<lparr>rejected = False, radius_after = 1 / 5,
            surrogate_after = \<lparr>reductor = Some [2::real], rom = Some [2::real],
                                new_reductor = Some [2, 1], new_rom = Some [2, 1]\<rparr>,
            output_after = 1\<rparr>"
  let ?d = "\<lparr>subproblem_data = [[2::real, 3 / 2, 1]], mus = [2::real, 1],
                data_update_norms = [Finite 1], data_foc_norms = [Finite 1], iterations = 1\<rparr>"
  have spr: "solve_subproblem ?Er ?Cr toy_state = Inr ?pr"
    using toy_solve_subproblem [of 1 0 1 True 0 2 "Finite 0"] by simp
  have ocr: "output_checks ?Er ?Cr toy_state ?pr = Inr ?vr"
    by (rule toy_pessimistic_checks)
  have itr: "tr_iteration ?Er ?Cr toy_state = Inr ?sr"
    by (rule toy_pessimistic_iteration)
  from iteration_record_append_only [of ?Er ?Cr toy_state ?pr ?vr ?sr] spr ocr itr
  have r: "data_mus ?sr = data_mus toy_state \<and> foc_norms ?sr = foc_norms toy_state"
    by simp
  have spa: "solve_subproblem ?Ea ?Ca toy_state = Inr ?pa"
    by (rule toy_optimistic_solve)
  have oca: "output_checks ?Ea ?Ca toy_state ?pa = Inr ?va"
    by (rule toy_optimistic_checks)
  have ita: "tr_iteration ?Ea ?Ca toy_state = Inr toy_state_accepted"
    by (rule toy_optimistic_iteration)
  from iteration_record_append_only [of ?Ea ?Ca toy_state ?pa ?va toy_state_accepted] spa oca ita
  have "data_mus toy_state_accepted = data_mus toy_state @ [cand_mu ?pa]
      \<and> data_subproblem_data toy_state_accepted
          = data_subproblem_data toy_state @ [cand_sub_data ?pa]
      \<and> foc_norms toy_state_accepted
          = foc_norms toy_state @ [first_order_criticality toy_state_accepted]"
    by simp
  then have a: "data_mus toy_state_accepted = data_mus toy_state @ [1]
      \<and> data_subproblem_data toy_state_accepted = data_subproblem_data toy_state @ [[2, 3 / 2, 1]]
      \<and> foc_norms toy_state_accepted = foc_norms toy_state @ [Finite 1]"
    by (simp add: toy_state_accepted_def)
  have lp: "tr_loop ?Ea ?Ca toy_state = Inr toy_state_accepted"
    by (rule toy_accepted_loop)
  have cnt: "accepted_iterations ?Ea ?Ca toy_state = 1"
    by (rule toy_accepted_count)
  from iteration_record_append_only [of ?Ea ?Ca toy_state _ _ _ toy_state_accepted] lp
  obtain a0 where "data_mus toy_state_accepted = data_mus toy_state @ a0"
    "length a0 = accepted_iterations ?Ea ?Ca toy_state"
    by blast
  with cnt have l: "length (data_mus toy_state_accepted) = length (data_mus toy_state) + 1"
    by simp
  have tr: "trust_region ?Ea ?Ca [] 2 (1 / 10) = Inr (1, ?d)"
    by (rule toy_trust_region)
  from iteration_record_append_only [of ?Ea ?Ca _ _ _ _ _ "[]" 2 "1 / 10" 1 ?d] tr
  obtain a1 where "mus ?d = 2 # a1" "length (subproblem_data ?d) = length a1"
    by blast
  then have d: "\<exists>a. mus ?d = 2 # a \<and> length a = 1"
    by simp
  from spr ocr itr r ita a lp cnt l tr d show ?thesis by blast
qed

text \<open>
  Claim C9 as stated fails: after one accepting iteration the list of parameters has
  two entries, the initial guess and the accepted parameter, and the norm recorded is
  that of the update, 2, where the accepted parameter 0 has norm 0.
\<close>

theorem record_entries_counterexample:
  "trust_region (toy_model (-2) 0 1 True) (toy_config 0 5 (Finite 2)) [] 2 (1 / 10)
     = Inr (0, \<lparr>subproblem_data = [[2, 3 / 2, 0]], mus = [2, 0],
                data_update_norms = [Finite 2], data_foc_norms = [Finite 1], iterations = 1\<rparr>)
   \<and> accepted_iterations (toy_model (-2) 0 1 True) (toy_config 0 5 (Finite 2)) toy_state = 1
   \<and> length [2::real, 0] = 2
   \<and> linalg_norm (toy_model (-2) 0 1 True) 0 = Finite 0
   \<and> linalg_norm (toy_model (-2) 0 1 True) (minus_mu (toy_model (-2) 0 1 True) 0 2) = Finite 2"
proof -
  let ?E = "toy_model (-2) 0 1 True"
  let ?C = "toy_config 0 5 (Finite 2)"
  let ?p = "\<lparr>cand_mu = 0::real, cand_sub_data = [2::real, 3 / 2, 0],
       compare_output = 3 / 2, estimate_output = 0, current_output = 0\<rparr>"
  let ?v = "\<lparr>rejected = False, radius_after = 1 / 5,
            surrogate_after = \<lparr>reductor = Some [2::real], rom = Some [2::real],
                                new_reductor = Some [2, 0], new_rom = Some [2, 0]\<rparr>,
            output_after = 0\<rparr>"
  let ?s = "\<lparr>mu = 0::real, radius = 1 / 5,
      surrogate = \<lparr>reductor = Some [2::real, 0], rom = Some [2::real, 0],
                   new_reductor = None, new_rom = None\<rparr>,
      mu_norm = Finite 0, data_mus = [2, 0], data_subproblem_data = [[2::real, 3 / 2, 0]],
      update_norms = [Finite 2], foc_norms = [Finite 1],
      old_rom_output = 0, old_fom_output = 2,
      first_order_criticality = Finite 1, iteration = 1\<rparr>"
  have sp: "solve_subproblem ?E ?C toy_state = Inr ?p"
    using toy_solve_subproblem [of "-2" 0 1 True 0 5 "Finite 2"] by simp
  have oc: "output_checks ?E ?C toy_state ?p = Inr ?v"
    by (simp add: output_checks_def toy_extend toy_state_def Let_def fom_output_def toy_config_def)
      (simp add: toy_model_def)
  have hr: "handle_rejection ?E toy_state ?p ?v = Inr ?s"
    by (simp add: handle_rejection_def Let_def accept_def toy_state_def fom_gradient_def
        toy_model_def)
  from tr_iteration_unfold [OF sp oc hr] have it: "tr_iteration ?E ?C toy_state = Inr ?s"
    by simp
  have c0: "termination_check ?C toy_state = Continue"
    by (simp add: termination_check_def toy_config_def toy_state_def)
  have c1: "termination_check ?C ?s = Converged"
    by (simp add: termination_check_def toy_config_def)
  from c1 have l1: "tr_loop ?E ?C ?s = Inr ?s" by (simp add: tr_loop.simps)
  from c0 it l1 have lp: "tr_loop ?E ?C toy_state = Inr ?s"
    by (simp add: tr_loop.simps [of _ _ toy_state])
  from c1 have a1: "accepted_iterations ?E ?C ?s = 0" by (simp add: accepted_iterations.simps)
  have nr: "\<not> iteration_rejected ?E ?C toy_state"
    by (simp add: iteration_rejected_def sp oc)
  from c0 it a1 nr have cnt: "accepted_iterations ?E ?C toy_state = 1"
    by (simp add: accepted_iterations.simps [of _ _ toy_state])
  have sur: "TRSurrogate ?E [] 2 = Inr toy_surrogate"
    by (simp add: TRSurrogate_def extend_def try_extension_def accept_def toy_model_def
        toy_surrogate_def)
  have r0: "rom_output ?E toy_surrogate 2 = Inr 2"
    by (simp add: rom_output_def toy_surrogate_def toy_model_def)
  have s0: "\<lparr>mu = 2, radius = 1 / 10, surrogate = toy_surrogate,
             mu_norm = linalg_norm ?E 2,
             data_mus = [2], data_subproblem_data = [],
             update_norms = [], foc_norms = [],
             old_rom_output = 2, old_fom_output = fom_output ?E 2,
             first_order_criticality = PosInf, iteration = 0\<rparr> = toy_state"
    by (simp add: toy_state_def toy_model_def fom_output_def)
  have sfz: "shrink_factor ?C \<noteq> 0" by (simp add: toy_config_def)
  have tr: "trust_region ?E ?C [] 2 (1 / 10)
     = Inr (0, \<lparr>subproblem_data = [[2, 3 / 2, 0]], mus = [2, 0],
                data_update_norms = [Finite 2], data_foc_norms = [Finite 1], iterations = 1\<rparr>)"
    using sfz by (simp add: trust_region_def sur r0 s0 lp)
  have n: "length [2::real, 0] = 2
     \<and> linalg_norm ?E 0 = Finite 0
     \<and> linalg_norm ?E (minus_mu ?E 0 2) = Finite 2"
    by (simp add: toy_model_def)
  from tr cnt n show ?thesis by blast
qed

subsection \<open>The degeneracy guard\<close>

lemma criterion_norm_irrelevant:
  "error_aware_line_search_criterion (env\<lparr>linalg_norm := f\<rparr>) m b r
     = error_aware_line_search_criterion env m b r"
  by (intro ext) (simp add: error_aware_line_search_criterion_def)

lemma solve_subproblem_norm_irrelevant:
  "solve_subproblem (env\<lparr>linalg_norm := f\<rparr>) cfg s = solve_subproblem env cfg s"
  by (cases "rom (surrogate s)")
    (simp_all add: solve_subproblem_def criterion_norm_irrelevant Let_def
      split: prod.splits option.splits)

lemma try_extension_norm_irrelevant:
  "try_extension (env\<lparr>linalg_norm := f\<rparr>) c u = try_extension env c u"
  by (simp add: try_extension_def split: option.splits)

lemma extend_norm_irrelevant:
  "extend (env\<lparr>linalg_norm := f\<rparr>) sur x = extend env sur x"
  by (simp add: extend_def try_extension_norm_irrelevant)

lemma output_checks_norm_irrelevant:
  "output_checks (env\<lparr>linalg_norm := f\<rparr>) cfg s p = output_checks env cfg s p"
  by (simp add: output_checks_def extend_norm_irrelevant new_rom_output_def fom_output_def
      Let_def split: sum.splits option.splits)

text \<open>
  Claim C10. The test at the end of the loop body reads the cached norm. After a
  rejecting iteration the cache is the one from before the iteration, so the error is
  raised exactly when that cached norm is not finite, whatever the norm of the rejected
  candidate is; after an accepting iteration the cache is the norm of the accepted
  candidate. A completed iteration leaves a finite cache, which is the norm of
  \<^verbatim>\<open>mu\<close> whenever it was so before the iteration.
\<close>

theorem degeneracy_guard_reads_cached_norm:
  assumes sp: "solve_subproblem env cfg s = Inr p"
    and oc: "output_checks env cfg s p = Inr v"
  shows "(rejected v \<longrightarrow>
            (tr_iteration env cfg s = Inl (TRError FailedToConverge)) = (\<not> isfinite (mu_norm s)))
       \<and> (\<not> rejected v \<longrightarrow>
            (tr_iteration env cfg s = Inl (TRError FailedToConverge))
              = (\<not> isfinite (linalg_norm env (cand_mu p))))
       \<and> (\<forall>s'. tr_iteration env cfg s = Inr s' \<longrightarrow>
            mu_norm s' = (if rejected v then mu_norm s else linalg_norm env (cand_mu p))
            \<and> mu s' = (if rejected v then mu s else cand_mu p)
            \<and> isfinite (mu_norm s')
            \<and> (mu_norm s = linalg_norm env (mu s) \<longrightarrow> mu_norm s' = linalg_norm env (mu s')))"
proof (cases "rejected v")
  case True
  note hr = handle_rejection_rejected [OF True, of env s p]
  from tr_iteration_unfold [OF sp oc hr] True show ?thesis
    by (auto split: if_splits)
next
  case False
  from output_checks_accepted [OF oc False] obtain sur' where
    "accept (surrogate_after v) = Inr sur'" by blast
  note hr = handle_rejection_accepted [OF False this, of env s p]
  from tr_iteration_unfold [OF sp oc hr] False show ?thesis
    by (auto split: if_splits)
qed

theorem degeneracy_guard_reads_cached_norm_witness:
  "solve_subproblem ((toy_model 1 0 1 True)\<lparr>linalg_norm := (\<lambda>x. if x = 3 then NaN else Finite \<bar>x\<bar>)\<rparr>)
       (toy_config 0 2 (Finite 0)) toy_state
     = Inr \<lparr>cand_mu = 3, cand_sub_data = [2, 3 / 2, 3],
            compare_output = 3 / 2, estimate_output = 0, current_output = 3\<rparr>
   \<and> output_checks ((toy_model 1 0 1 True)\<lparr>linalg_norm := (\<lambda>x. if x = 3 then NaN else Finite \<bar>x\<bar>)\<rparr>)
        (toy_config 0 2 (Finite 0)) toy_state
        \<lparr>cand_mu = 3, cand_sub_data = [2, 3 / 2, 3],
         compare_output = 3 / 2, estimate_output = 0, current_output = 3\<rparr>
      = Inr \<lparr>rejected = True, radius_after = 1 / 20, surrogate_after = toy_surrogate,
             output_after = 3\<rparr>
   \<and> \<not> isfinite (linalg_norm ((toy_model 1 0 1 True)\<lparr>linalg_norm := (\<lambda>x. if x = 3 then NaN else Finite \<bar>x\<bar>)\<rparr>) 3)
   \<and> isfinite (mu_norm toy_state)
   \<and> tr_iteration ((toy_model 1 0 1 True)\<lparr>linalg_norm := (\<lambda>x. if x = 3 then NaN else Finite \<bar>x\<bar>)\<rparr>)
        (toy_config 0 2 (Finite 0)) toy_state \<noteq> Inl (TRError FailedToConverge)
   \<and> solve_subproblem ((toy_model (-1) 0 1 True)\<lparr>linalg_norm := (\<lambda>x. if x = 1 then PosInf else Finite \<bar>x\<bar>)\<rparr>)
       (toy_config 0 2 (Finite 0)) toy_state
     = Inr \<lparr>cand_mu = 1, cand_sub_data = [2, 3 / 2, 1],
            compare_output = 3 / 2, estimate_output = 0, current_output = 1\<rparr>
   \<and> output_checks ((toy_model (-1) 0 1 True)\<lparr>linalg_norm := (\<lambda>x. if x = 1 then PosInf else Finite \<bar>x\<bar>)\<rparr>)
        (toy_config 0 2 (Finite 0)) toy_state
        \<lparr>cand_mu = 1, cand_sub_data = [2, 3 / 2, 1],
         compare_output = 3 / 2, estimate_output = 0, current_output = 1\<rparr>
      = Inr \<lparr>rejected = False, radius_after = 1 / 5,
            surrogate_after = \<lparr>reductor = Some [2], rom = Some [2],
                                new_reductor = Some [2, 1], new_rom = Some [2, 1]\<rparr>,
            output_after = 1\<rparr>
   \<and> tr_iteration ((toy_model (-1) 0 1 True)\<lparr>linalg_norm := (\<lambda>x. if x = 1 then PosInf else Finite \<bar>x\<bar>)\<rparr>)
        (toy_config 0 2 (Finite 0)) toy_state = Inl (TRError FailedToConverge)
   \<and> tr_iteration (toy_model 1 0 1 True) (toy_config 0 2 (Finite 0)) toy_state
      = Inr (toy_state\<lparr>radius := 1 / 20, iteration := 1\<rparr>)
   \<and> mu_norm toy_state = linalg_norm (toy_model 1 0 1 True) (mu toy_state)
   \<and> mu_norm (toy_state\<lparr>radius := 1 / 20, iteration := 1\<rparr>)
       = linalg_norm (toy_model 1 0 1 True) (mu (toy_state\<lparr>radius := 1 / 20, iteration := 1\<rparr>))"
proof -
  let ?C = "toy_config 0 2 (Finite 0)"
  let ?En = "(toy_model 1 0 1 True)\<lparr>linalg_norm := (\<lambda>x. if x = 3 then NaN else Finite \<bar>x\<bar>)\<rparr>"
  let ?Ei = "(toy_model (-1) 0 1 True)\<lparr>linalg_norm := (\<lambda>x. if x = 1 then PosInf else Finite \<bar>x\<bar>)\<rparr>"
  let ?Er = "toy_model 1 0 1 True"
  let ?pr = "\<lparr>cand_mu = 3::real, cand_sub_data = [2::real, 3 / 2, 3],
            compare_output = 3 / 2, estimate_output = 0, current_output = 3\<rparr>"
  let ?vr = "\<lparr>rejected = True, radius_after = 1 / 20, surrogate_after = toy_surrogate,
             output_after = 3\<rparr>"
  let ?pa = "\<lparr>cand_mu = 1::real, cand_sub_data = [2::real, 3 / 2, 1],
       compare_output = 3 / 2, estimate_output = 0, current_output = 1\<rparr>"
  let ?va = "\<lparr>rejected = False, radius_after = 1 / 5,
            surrogate_after = \<lparr>reductor = Some [2::real], rom = Some [2::real],
                                new_reductor = Some [2, 1], new_rom = Some [2, 1]\<rparr>,
            output_after = 1\<rparr>"
  let ?sr = "toy_state\<lparr>radius := 1 / 20, iteration := 1\<rparr>"
  have spr: "solve_subproblem ?Er ?C toy_state = Inr ?pr"
    using toy_solve_subproblem [of 1 0 1 True 0 2 "Finite 0"] by simp
  have ocr: "output_checks ?Er ?C toy_state ?pr = Inr ?vr"
    by (rule toy_pessimistic_checks)
  have spn: "solve_subproblem ?En ?C toy_state = Inr ?pr"
    using spr by (simp only: solve_subproblem_norm_irrelevant)
  have ocn: "output_checks ?En ?C toy_state ?pr = Inr ?vr"
    using ocr by (simp only: output_checks_norm_irrelevant)
  have spi: "solve_subproblem ?Ei ?C toy_state = Inr ?pa"
    using toy_optimistic_solve [of 0 2 "Finite 0"] by (simp only: solve_subproblem_norm_irrelevant)
  have oci: "output_checks ?Ei ?C toy_state ?pa = Inr ?va"
    using toy_optimistic_checks [of 0 2 "Finite 0"] by (simp only: output_checks_norm_irrelevant)
  have rej: "rejected ?vr" by simp
  have nrej: "\<not> rejected ?va" by simp
  have nf: "\<not> isfinite (linalg_norm ?En 3)" by simp
  have fin: "isfinite (mu_norm toy_state)" by (simp add: toy_state_def)
  have inf: "\<not> isfinite (linalg_norm ?Ei (cand_mu ?pa))" by simp
  from degeneracy_guard_reads_cached_norm [OF spn ocn] rej fin
  have g1: "tr_iteration ?En ?C toy_state \<noteq> Inl (TRError FailedToConverge)"
    by blast
  from degeneracy_guard_reads_cached_norm [OF spi oci] nrej inf
  have g2: "tr_iteration ?Ei ?C toy_state = Inl (TRError FailedToConverge)"
    by blast
  have itr: "tr_iteration ?Er ?C toy_state = Inr ?sr"
    by (rule toy_pessimistic_iteration)
  have inv: "mu_norm toy_state = linalg_norm ?Er (mu toy_state)"
    by (simp add: toy_state_def toy_model_def)
  from degeneracy_guard_reads_cached_norm [OF spr ocr] itr inv
  have g3: "mu_norm ?sr = linalg_norm ?Er (mu ?sr)"
    by blast
  from spn ocn nf fin g1 spi oci g2 itr inv g3 show ?thesis by blast
qed

subsection \<open>Termination and errors of the loop\<close>

lemma termination_check_BudgetExhausted:
  "termination_check cfg s = BudgetExhausted \<longleftrightarrow>
     (iteration s \<ge> miniter cfg \<and> \<not> np_less (first_order_criticality s) (tol_criticality cfg)
      \<and> iteration s \<ge> maxiter cfg)"
  by (auto simp: termination_check_def)

lemma termination_check_Converged:
  "termination_check cfg s = Converged \<longleftrightarrow>
     (iteration s \<ge> miniter cfg \<and> np_less (first_order_criticality s) (tol_criticality cfg))"
  by (auto simp: termination_check_def)

lemma output_checks_total:
  assumes m: "rom (surrogate s) = Some m"
  shows "\<exists>v. output_checks env cfg s p = Inr v"
proof -
  from extend_committed [OF m, of env "cand_mu p"] obtain sur where
    sur: "extend env (surrogate s) (cand_mu p) = Inr sur" and nr: "new_rom sur \<noteq> None"
    by blast
  from nr obtain m' where m': "new_rom sur = Some m'" by blast
  show ?thesis
  proof (cases "current_output p + estimate_output p < compare_output p")
    case True
    from output_checks_optimistic [OF True sur] show ?thesis by blast
  next
    case nopt: False
    show ?thesis
    proof (cases "current_output p - estimate_output p > compare_output p")
      case True
      from output_checks_pessimistic [OF nopt True] show ?thesis by blast
    next
      case False
      from output_checks_ambiguous [OF nopt False sur m', of cfg] show ?thesis
        by (auto split: if_splits)
    qed
  qed
qed

lemma solve_subproblem_errors:
  assumes "rom (surrogate s) = Some m" and "solve_subproblem env cfg s = Inl e"
  shows "e = IndexError
         \<or> (e = BFGSError
             \<and> bfgs env m (mu s) (error_aware_line_search_criterion env m (beta cfg) (radius s))
                 = None)"
  using assms
  by (auto simp: solve_subproblem_def Let_def split: prod.splits if_splits option.splits)

lemma subproblem_failure_propagates:
  assumes m: "rom (surrogate s) = Some m"
    and f: "bfgs env m (mu s) (error_aware_line_search_criterion env m (beta cfg) (radius s))
              = None"
  shows "solve_subproblem env cfg s = Inl BFGSError" and "tr_iteration env cfg s = Inl BFGSError"
proof -
  from m f show "solve_subproblem env cfg s = Inl BFGSError"
    by (simp add: solve_subproblem_def)
  then show "tr_iteration env cfg s = Inl BFGSError"
    by (simp add: tr_iteration_def)
qed

lemma tr_iteration_errors:
  assumes m: "rom (surrogate s) = Some m" and e: "tr_iteration env cfg s = Inl e"
  shows "(e = IndexError \<and> solve_subproblem env cfg s = Inl IndexError)
         \<or> (e = BFGSError
             \<and> bfgs env m (mu s) (error_aware_line_search_criterion env m (beta cfg) (radius s))
                 = None)
         \<or> (e = TRError FailedToConverge
             \<and> (\<exists>p v s1. solve_subproblem env cfg s = Inr p \<and> output_checks env cfg s p = Inr v
                   \<and> handle_rejection env s p v = Inr s1 \<and> \<not> isfinite (mu_norm s1)))"
proof (cases "solve_subproblem env cfg s")
  case (Inl e')
  with e have "e' = e" by (simp add: tr_iteration_def)
  with solve_subproblem_errors [OF m Inl] Inl show ?thesis
    by auto
next
  case (Inr p)
  from output_checks_total [OF m] obtain v where v: "output_checks env cfg s p = Inr v"
    by blast
  from handle_rejection_total [OF v] obtain s1 where s1: "handle_rejection env s p v = Inr s1"
    by blast
  from tr_iteration_unfold [OF Inr v s1] e
  have "e = TRError FailedToConverge \<and> \<not> isfinite (mu_norm s1)"
    by (auto split: if_splits)
  with Inr v s1 show ?thesis by blast
qed

lemma tr_iteration_trerror:
  assumes e: "tr_iteration env cfg s = Inl (TRError r)"
  shows "r = FailedToConverge
         \<and> (\<exists>p v s1. solve_subproblem env cfg s = Inr p \<and> output_checks env cfg s p = Inr v
               \<and> handle_rejection env s p v = Inr s1 \<and> \<not> isfinite (mu_norm s1))"
proof (cases "rom (surrogate s)")
  case None
  with e show ?thesis by (simp add: tr_iteration_def solve_subproblem_def)
next
  case (Some m)
  from tr_iteration_errors [OF Some e] show ?thesis by auto
qed

lemma tr_iteration_keeps_rom:
  assumes "tr_iteration env cfg s = Inr s'"
  shows "rom (surrogate s') \<noteq> None"
proof -
  from tr_iteration_InrD [OF assms] obtain p v where
    sp: "solve_subproblem env cfg s = Inr p" and oc: "output_checks env cfg s p = Inr v"
    and hr: "handle_rejection env s p v = Inr s'"
    by blast
  from solve_subproblem_outputs [OF sp] obtain m where m: "rom (surrogate s) = Some m"
    by blast
  show ?thesis
  proof (cases "rejected v")
    case True
    from output_checks_rejected [OF oc True]
    have "reject (surrogate_after v) = reject (surrogate s)" by simp
    with handle_rejection_rejected [OF True, of env s p] hr m show ?thesis
      by (auto simp: reject_def)
  next
    case False
    from oc False obtain sur where sur: "extend env (surrogate s) (cand_mu p) = Inr sur"
      and sa: "surrogate_after v = sur"
      by (auto simp: output_checks_def Let_def split: sum.splits if_splits)
    from extend_Inr_form [OF sur] obtain m' where m': "new_rom sur = Some m'" by auto
    from accept_pending [OF m'] sa
    have "accept (surrogate_after v) = Inr (sur\<lparr>rom := Some m', reductor := new_reductor sur,
                             new_rom := None, new_reductor := None\<rparr>)"
      by simp
    from handle_rejection_accepted [OF False this, of env s p] hr show ?thesis
      by auto
  qed
qed

lemma tr_after_Suc_head:
  assumes "termination_check cfg s = Continue" and "tr_iteration env cfg s = Inr s1"
    and "tr_after env cfg n s1 = Some s'"
  shows "tr_after env cfg (Suc n) s = Some s'"
  using assms by simp

lemma tr_loop_trerror:
  "tr_loop env cfg s = Inl (TRError r) \<Longrightarrow>
     \<exists>n s'. tr_after env cfg n s = Some s'
       \<and> ((r = MaximumIterations \<and> termination_check cfg s' = BudgetExhausted)
          \<or> (r = FailedToConverge \<and> termination_check cfg s' = Continue
              \<and> tr_iteration env cfg s' = Inl (TRError FailedToConverge)))"
proof (induction env cfg s rule: tr_loop.induct)
  case (1 env cfg s)
  show ?case
  proof (cases "termination_check cfg s")
    case Converged
    with "1.prems" show ?thesis by (simp add: tr_loop.simps)
  next
    case BudgetExhausted
    with "1.prems" have "r = MaximumIterations" by (simp add: tr_loop.simps)
    with BudgetExhausted have "tr_after env cfg 0 s = Some s
       \<and> ((r = MaximumIterations \<and> termination_check cfg s = BudgetExhausted)
          \<or> (r = FailedToConverge \<and> termination_check cfg s = Continue
              \<and> tr_iteration env cfg s = Inl (TRError FailedToConverge)))"
      by simp
    then show ?thesis by blast
  next
    case Continue
    show ?thesis
    proof (cases "tr_iteration env cfg s")
      case (Inl e)
      with Continue "1.prems" have e: "e = TRError r"
        by (simp add: tr_loop.simps [of env cfg s])
      with Inl tr_iteration_trerror [of env cfg s r] have "r = FailedToConverge" by simp
      with Inl e Continue have "tr_after env cfg 0 s = Some s
         \<and> ((r = MaximumIterations \<and> termination_check cfg s = BudgetExhausted)
          \<or> (r = FailedToConverge \<and> termination_check cfg s = Continue
              \<and> tr_iteration env cfg s = Inl (TRError FailedToConverge)))"
        by simp
      then show ?thesis by blast
    next
      case (Inr s1)
      with Continue "1.prems" have "tr_loop env cfg s1 = Inl (TRError r)"
        by (simp add: tr_loop.simps [of env cfg s])
      from "1.IH" [OF Continue Inr this] obtain n s' where
        a: "tr_after env cfg n s1 = Some s'"
        and b: "(r = MaximumIterations \<and> termination_check cfg s' = BudgetExhausted)
          \<or> (r = FailedToConverge \<and> termination_check cfg s' = Continue
              \<and> tr_iteration env cfg s' = Inl (TRError FailedToConverge))"
        by blast
      from tr_after_Suc_head [OF Continue Inr a] b show ?thesis by blast
    qed
  qed
qed

lemma tr_loop_errors:
  "rom (surrogate s) \<noteq> None \<Longrightarrow> tr_loop env cfg s = Inl e \<Longrightarrow>
     (\<exists>r. e = TRError r) \<or> e = IndexError \<or> e = BFGSError"
proof (induction env cfg s rule: tr_loop.induct)
  case (1 env cfg s)
  from "1.prems"(1) obtain m where m: "rom (surrogate s) = Some m" by blast
  show ?case
  proof (cases "termination_check cfg s")
    case Converged
    with "1.prems" show ?thesis by (simp add: tr_loop.simps)
  next
    case BudgetExhausted
    with "1.prems" show ?thesis by (auto simp: tr_loop.simps)
  next
    case Continue
    show ?thesis
    proof (cases "tr_iteration env cfg s")
      case (Inl e')
      with Continue "1.prems" have "e = e'" by (simp add: tr_loop.simps [of env cfg s])
      with tr_iteration_errors [OF m Inl] show ?thesis by auto
    next
      case (Inr s1)
      with Continue "1.prems" have l: "tr_loop env cfg s1 = Inl e"
        by (simp add: tr_loop.simps [of env cfg s])
      from "1.IH" [OF Continue Inr tr_iteration_keeps_rom [OF Inr] l] show ?thesis .
    qed
  qed
qed

lemma tr_loop_after:
  "tr_after env cfg n s = Some s' \<Longrightarrow> tr_loop env cfg s = tr_loop env cfg s'"
proof (induction n arbitrary: s)
  case 0
  then show ?case by simp
next
  case (Suc n)
  from Suc.prems have c: "termination_check cfg s = Continue"
    by (simp split: if_splits)
  with Suc.prems obtain s1 where it: "tr_iteration env cfg s = Inr s1"
    and a: "tr_after env cfg n s1 = Some s'"
    by (auto split: sum.splits)
  from c it have "tr_loop env cfg s = tr_loop env cfg s1"
    by (simp add: tr_loop.simps [of env cfg s])
  with Suc.IH [OF a] show ?case by simp
qed

lemma tr_loop_BudgetExhausted:
  "termination_check cfg s = BudgetExhausted \<Longrightarrow> tr_loop env cfg s = Inl (TRError MaximumIterations)"
  by (simp add: tr_loop.simps)

lemma tr_loop_Converged:
  "termination_check cfg s = Converged \<Longrightarrow> tr_loop env cfg s = Inr s"
  by (simp add: tr_loop.simps)

lemma tr_loop_iteration_error:
  "termination_check cfg s = Continue \<Longrightarrow> tr_iteration env cfg s = Inl e
     \<Longrightarrow> tr_loop env cfg s = Inl e"
  by (simp add: tr_loop.simps [of env cfg s])

lemma failed_extension_absorbed:
  assumes m: "rom (surrogate s) = Some m"
    and fail: "try_extension env (reductor (surrogate s)) (fom_solve env (cand_mu p)) = None"
  shows "\<exists>v s1. output_checks env cfg s p = Inr v \<and> handle_rejection env s p v = Inr s1
           \<and> rom (surrogate s1) = Some m \<and> reductor (surrogate s1) = reductor (surrogate s)"
proof -
  let ?sur = "(surrogate s)\<lparr>new_reductor := reductor (surrogate s), new_rom := Some m\<rparr>"
  from m fail have ex: "extend env (surrogate s) (cand_mu p) = Inr ?sur"
    by (simp add: extend_def)
  from output_checks_total [OF m] obtain v where v: "output_checks env cfg s p = Inr v"
    by blast
  from v ex have sa: "surrogate_after v = surrogate s \<or> surrogate_after v = ?sur"
    by (auto simp: output_checks_def Let_def split: if_splits sum.splits)
  show ?thesis
  proof (cases "rejected v")
    case True
    from handle_rejection_rejected [OF True, of env s p] sa m v show ?thesis
      by (auto simp: reject_def)
  next
    case False
    from v False ex have sa': "surrogate_after v = ?sur"
      by (auto simp: output_checks_def Let_def split: if_splits sum.splits)
    have "new_rom ?sur = Some m" by simp
    from accept_pending [OF this] sa'
    have acc: "accept (surrogate_after v) = Inr (?sur\<lparr>rom := Some m, reductor := new_reductor ?sur,
                             new_rom := None, new_reductor := None\<rparr>)"
      by simp
    from handle_rejection_accepted [OF False acc, of env s p] v show ?thesis
      by auto
  qed
qed

text \<open>
  Claim C3, as amended. Where the loop raises a TRError, it has either reached a
  termination check at which the iteration counter is at least \<^verbatim>\<open>miniter\<close> and
  \<^verbatim>\<open>maxiter\<close> and the criticality is not below the tolerance, or completed the body
  of an iteration with a cached parameter norm that is not finite; and in both
  situations it raises. A failed extension raises nothing: it leaves the committed pair
  in place, and the iteration ends as an accepted or a rejected one. A failure of the
  subproblem solver is not absorbed: the iteration and the loop end with the solver's
  error, which is not a TRError. With a committed reduced model an iteration raises
  nothing else, apart from the IndexError of an empty list of iterates.
\<close>

theorem trerror_exactly_two_situations:
  "(tr_loop env cfg s = Inl (TRError r) \<longrightarrow>
      (\<exists>n s'. tr_after env cfg n s = Some s'
         \<and> ((r = MaximumIterations \<and> iteration s' \<ge> miniter cfg \<and> iteration s' \<ge> maxiter cfg
              \<and> \<not> np_less (first_order_criticality s') (tol_criticality cfg))
            \<or> (r = FailedToConverge \<and> termination_check cfg s' = Continue
                \<and> (\<exists>p v s1. solve_subproblem env cfg s' = Inr p
                      \<and> output_checks env cfg s' p = Inr v
                      \<and> handle_rejection env s' p v = Inr s1 \<and> \<not> isfinite (mu_norm s1))))))
   \<and> (tr_after env cfg k s = Some t \<longrightarrow> iteration t \<ge> miniter cfg \<longrightarrow> iteration t \<ge> maxiter cfg
        \<longrightarrow> \<not> np_less (first_order_criticality t) (tol_criticality cfg)
        \<longrightarrow> tr_loop env cfg s = Inl (TRError MaximumIterations))
   \<and> (tr_after env cfg k s = Some t \<longrightarrow> termination_check cfg t = Continue
        \<longrightarrow> solve_subproblem env cfg t = Inr p \<longrightarrow> output_checks env cfg t p = Inr v
        \<longrightarrow> handle_rejection env t p v = Inr t1 \<longrightarrow> \<not> isfinite (mu_norm t1)
        \<longrightarrow> tr_loop env cfg s = Inl (TRError FailedToConverge))
   \<and> (rom (surrogate s) = Some m \<longrightarrow> tr_iteration env cfg s = Inl e \<longrightarrow>
        e = TRError FailedToConverge
        \<or> (e = IndexError \<and> solve_subproblem env cfg s = Inl IndexError)
        \<or> (e = BFGSError
            \<and> bfgs env m (mu s) (error_aware_line_search_criterion env m (beta cfg) (radius s))
                = None))
   \<and> (rom (surrogate s) \<noteq> None \<longrightarrow> tr_loop env cfg s = Inl e \<longrightarrow>
        (\<exists>r'. e = TRError r') \<or> e = IndexError \<or> e = BFGSError)
   \<and> (rom (surrogate s) = Some m \<longrightarrow>
        bfgs env m (mu s) (error_aware_line_search_criterion env m (beta cfg) (radius s)) = None
        \<longrightarrow> tr_iteration env cfg s = Inl BFGSError
            \<and> (termination_check cfg s = Continue \<longrightarrow> tr_loop env cfg s = Inl BFGSError))
   \<and> (rom (surrogate s) = Some m \<longrightarrow>
        try_extension env (reductor (surrogate s)) (fom_solve env (cand_mu q)) = None \<longrightarrow>
        (\<exists>w s1. output_checks env cfg s q = Inr w \<and> handle_rejection env s q w = Inr s1
           \<and> rom (surrogate s1) = Some m \<and> reductor (surrogate s1) = reductor (surrogate s)))"
proof (intro conjI impI)
  assume "tr_loop env cfg s = Inl (TRError r)"
  from tr_loop_trerror [OF this] obtain n s' where a: "tr_after env cfg n s = Some s'"
    and b: "(r = MaximumIterations \<and> termination_check cfg s' = BudgetExhausted)
          \<or> (r = FailedToConverge \<and> termination_check cfg s' = Continue
              \<and> tr_iteration env cfg s' = Inl (TRError FailedToConverge))"
    by blast
  from b have "(r = MaximumIterations \<and> iteration s' \<ge> miniter cfg \<and> iteration s' \<ge> maxiter cfg
              \<and> \<not> np_less (first_order_criticality s') (tol_criticality cfg))
            \<or> (r = FailedToConverge \<and> termination_check cfg s' = Continue
                \<and> (\<exists>p v s1. solve_subproblem env cfg s' = Inr p
                      \<and> output_checks env cfg s' p = Inr v
                      \<and> handle_rejection env s' p v = Inr s1 \<and> \<not> isfinite (mu_norm s1)))"
    using tr_iteration_trerror [of env cfg s' FailedToConverge]
    by (auto simp: termination_check_BudgetExhausted)
  with a show "\<exists>n s'. tr_after env cfg n s = Some s'
         \<and> ((r = MaximumIterations \<and> iteration s' \<ge> miniter cfg \<and> iteration s' \<ge> maxiter cfg
              \<and> \<not> np_less (first_order_criticality s') (tol_criticality cfg))
            \<or> (r = FailedToConverge \<and> termination_check cfg s' = Continue
                \<and> (\<exists>p v s1. solve_subproblem env cfg s' = Inr p
                      \<and> output_checks env cfg s' p = Inr v
                      \<and> handle_rejection env s' p v = Inr s1 \<and> \<not> isfinite (mu_norm s1))))"
    by blast
next
  assume a: "tr_after env cfg k s = Some t" and "iteration t \<ge> miniter cfg"
    "iteration t \<ge> maxiter cfg" "\<not> np_less (first_order_criticality t) (tol_criticality cfg)"
  then have "termination_check cfg t = BudgetExhausted"
    by (simp add: termination_check_BudgetExhausted)
  from tr_loop_BudgetExhausted [OF this] tr_loop_after [OF a]
  show "tr_loop env cfg s = Inl (TRError MaximumIterations)" by simp
next
  assume a: "tr_after env cfg k s = Some t" and c: "termination_check cfg t = Continue"
    and sp: "solve_subproblem env cfg t = Inr p" and oc: "output_checks env cfg t p = Inr v"
    and hr: "handle_rejection env t p v = Inr t1" and nf: "\<not> isfinite (mu_norm t1)"
  from tr_iteration_unfold [OF sp oc hr] nf
  have "tr_iteration env cfg t = Inl (TRError FailedToConverge)" by simp
  from tr_loop_iteration_error [OF c this] tr_loop_after [OF a]
  show "tr_loop env cfg s = Inl (TRError FailedToConverge)" by simp
next
  assume "rom (surrogate s) = Some m" and e: "tr_iteration env cfg s = Inl e"
  from tr_iteration_errors [OF this]
  show "e = TRError FailedToConverge
        \<or> (e = IndexError \<and> solve_subproblem env cfg s = Inl IndexError)
        \<or> (e = BFGSError
            \<and> bfgs env m (mu s) (error_aware_line_search_criterion env m (beta cfg) (radius s))
                = None)"
    by blast
next
  assume "rom (surrogate s) \<noteq> None" and "tr_loop env cfg s = Inl e"
  then show "(\<exists>r'. e = TRError r') \<or> e = IndexError \<or> e = BFGSError"
    by (rule tr_loop_errors)
next
  assume m: "rom (surrogate s) = Some m"
    and f: "bfgs env m (mu s) (error_aware_line_search_criterion env m (beta cfg) (radius s))
              = None"
  from subproblem_failure_propagates(2) [OF m f]
  show "tr_iteration env cfg s = Inl BFGSError" .
next
  assume m: "rom (surrogate s) = Some m"
    and f: "bfgs env m (mu s) (error_aware_line_search_criterion env m (beta cfg) (radius s))
              = None"
    and c: "termination_check cfg s = Continue"
  from tr_loop_iteration_error [OF c subproblem_failure_propagates(2) [OF m f]]
  show "tr_loop env cfg s = Inl BFGSError" .
next
  assume "rom (surrogate s) = Some m"
    and "try_extension env (reductor (surrogate s)) (fom_solve env (cand_mu q)) = None"
  then show "\<exists>w s1. output_checks env cfg s q = Inr w \<and> handle_rejection env s q w = Inr s1
           \<and> rom (surrogate s1) = Some m \<and> reductor (surrogate s1) = reductor (surrogate s)"
    by (rule failed_extension_absorbed)
qed

lemma toy_rejected_after_one:
  "tr_after (toy_model 1 0 1 True) (toy_config 0 1 (Finite 0)) 1 toy_state
     = Some (toy_state\<lparr>radius := 1 / 20, iteration := 1\<rparr>)"
proof -
  have c0: "termination_check (toy_config 0 1 (Finite 0)) toy_state = Continue"
    by (simp add: termination_check_def toy_config_def toy_state_def)
  from c0 toy_pessimistic_iteration [of 0 1 "Finite 0"] show ?thesis
    by (simp add: numeral_eq_Suc)
qed

theorem trerror_exactly_two_situations_witness:
  "tr_loop (toy_model 1 0 1 True) (toy_config 0 1 (Finite 0)) toy_state
     = Inl (TRError MaximumIterations)
   \<and> tr_after (toy_model 1 0 1 True) (toy_config 0 1 (Finite 0)) 1 toy_state
       = Some (toy_state\<lparr>radius := 1 / 20, iteration := 1\<rparr>)
   \<and> iteration (toy_state\<lparr>radius := 1 / 20, iteration := 1\<rparr>) \<ge> miniter (toy_config 0 1 (Finite 0))
   \<and> iteration (toy_state\<lparr>radius := 1 / 20, iteration := 1\<rparr>) \<ge> maxiter (toy_config 0 1 (Finite 0))
   \<and> \<not> np_less (first_order_criticality (toy_state\<lparr>radius := 1 / 20, iteration := 1\<rparr>))
         (tol_criticality (toy_config 0 1 (Finite 0)))
   \<and> (\<exists>n s'. tr_after (toy_model 1 0 1 True) (toy_config 0 1 (Finite 0)) n toy_state = Some s'
         \<and> iteration s' \<ge> maxiter (toy_config 0 1 (Finite 0)))
   \<and> termination_check (toy_config 0 2 (Finite 0)) toy_state = Continue
   \<and> tr_iteration ((toy_model (-1) 0 1 True)\<lparr>linalg_norm := (\<lambda>x. if x = 1 then PosInf else Finite \<bar>x\<bar>)\<rparr>)
        (toy_config 0 2 (Finite 0)) toy_state = Inl (TRError FailedToConverge)
   \<and> tr_loop ((toy_model (-1) 0 1 True)\<lparr>linalg_norm := (\<lambda>x. if x = 1 then PosInf else Finite \<bar>x\<bar>)\<rparr>)
        (toy_config 0 2 (Finite 0)) toy_state = Inl (TRError FailedToConverge)
   \<and> rom (surrogate toy_state) = Some [2]
   \<and> try_extension (toy_model (-1) 0 1 False) (reductor (surrogate toy_state))
        (fom_solve (toy_model (-1) 0 1 False) 1) = None
   \<and> (\<exists>w s1. output_checks (toy_model (-1) 0 1 False) (toy_config 0 2 (Finite 0)) toy_state
                \<lparr>cand_mu = 1, cand_sub_data = [2, 3 / 2, 1],
                 compare_output = 3 / 2, estimate_output = 0, current_output = 1\<rparr> = Inr w
         \<and> handle_rejection (toy_model (-1) 0 1 False) toy_state
                \<lparr>cand_mu = 1, cand_sub_data = [2, 3 / 2, 1],
                 compare_output = 3 / 2, estimate_output = 0, current_output = 1\<rparr> w = Inr s1
         \<and> rom (surrogate s1) = Some [2])
   \<and> tr_iteration ((toy_model (-1) 0 1 True)\<lparr>bfgs := (\<lambda>m x c. None)\<rparr>)
        (toy_config 0 2 (Finite 0)) toy_state = Inl BFGSError
   \<and> tr_loop ((toy_model (-1) 0 1 True)\<lparr>bfgs := (\<lambda>m x c. None)\<rparr>)
        (toy_config 0 2 (Finite 0)) toy_state = Inl BFGSError"
proof -
  let ?Er = "toy_model 1 0 1 True"
  let ?C1 = "toy_config 0 1 (Finite 0)"
  let ?Eb = "(toy_model (-1) 0 1 True)\<lparr>bfgs := (\<lambda>m x c. None)\<rparr>"
  let ?C = "toy_config 0 2 (Finite 0)"
  let ?sr = "toy_state\<lparr>radius := 1 / 20, iteration := 1\<rparr>"
  let ?Ei = "(toy_model (-1) 0 1 True)\<lparr>linalg_norm := (\<lambda>x. if x = 1 then PosInf else Finite \<bar>x\<bar>)\<rparr>"
  let ?Ef = "toy_model (-1) 0 1 False"
  let ?pa = "\<lparr>cand_mu = 1::real, cand_sub_data = [2::real, 3 / 2, 1],
       compare_output = 3 / 2, estimate_output = 0, current_output = 1\<rparr>"
  let ?va = "\<lparr>rejected = False, radius_after = 1 / 5,
            surrogate_after = \<lparr>reductor = Some [2::real], rom = Some [2::real],
                                new_reductor = Some [2, 1], new_rom = Some [2, 1]\<rparr>,
            output_after = 1\<rparr>"
  note T = trerror_exactly_two_situations
  \<comment> \<open>the budget\<close>
  have af: "tr_after ?Er ?C1 1 toy_state = Some ?sr" by (rule toy_rejected_after_one)
  have b1: "iteration ?sr \<ge> miniter ?C1" by (simp add: toy_config_def)
  have b2: "iteration ?sr \<ge> maxiter ?C1" by (simp add: toy_config_def)
  have b3: "\<not> np_less (first_order_criticality ?sr) (tol_criticality ?C1)"
    by (simp add: toy_config_def toy_state_def)
  from T [of ?Er ?C1 toy_state _ 1 ?sr] af b1 b2 b3
  have l1: "tr_loop ?Er ?C1 toy_state = Inl (TRError MaximumIterations)" by blast
  from T [of ?Er ?C1 toy_state MaximumIterations] l1
  have l2: "\<exists>n s'. tr_after ?Er ?C1 n toy_state = Some s' \<and> iteration s' \<ge> maxiter ?C1"
    by blast
  \<comment> \<open>the norm\<close>
  have c0: "termination_check ?C toy_state = Continue"
    by (simp add: termination_check_def toy_config_def toy_state_def)
  have a0: "tr_after ?Ei ?C 0 toy_state = Some toy_state" by simp
  have spi: "solve_subproblem ?Ei ?C toy_state = Inr ?pa"
    using toy_optimistic_solve [of 0 2 "Finite 0"] by (simp only: solve_subproblem_norm_irrelevant)
  have oci: "output_checks ?Ei ?C toy_state ?pa = Inr ?va"
    using toy_optimistic_checks [of 0 2 "Finite 0"] by (simp only: output_checks_norm_irrelevant)
  from handle_rejection_total [OF oci] obtain t1 where
    hr: "handle_rejection ?Ei toy_state ?pa ?va = Inr t1" by blast
  have "accept (surrogate_after ?va)
      = Inr \<lparr>reductor = Some [2, 1], rom = Some [2, 1], new_reductor = None, new_rom = None\<rparr>"
    by (simp add: accept_def)
  from handle_rejection_accepted [OF _ this, of ?Ei toy_state ?pa] hr
  have nf: "\<not> isfinite (mu_norm t1)" by auto
  from T [of ?Ei ?C toy_state _ 0 toy_state ?pa ?va t1] a0 c0 spi oci hr nf
  have l3: "tr_loop ?Ei ?C toy_state = Inl (TRError FailedToConverge)" by blast
  from tr_iteration_unfold [OF spi oci hr] nf
  have it: "tr_iteration ?Ei ?C toy_state = Inl (TRError FailedToConverge)" by simp
  \<comment> \<open>the failed extension\<close>
  have m: "rom (surrogate toy_state) = Some [2]"
    by (simp add: toy_state_def toy_surrogate_def)
  have fail: "try_extension ?Ef (reductor (surrogate toy_state)) (fom_solve ?Ef (cand_mu ?pa)) = None"
    by (simp add: try_extension_def toy_state_def toy_surrogate_def toy_model_def)
  from T [where env = ?Ef and cfg = ?C and s = toy_state and m = "[2]" and q = ?pa] m fail
  have l6: "\<exists>w s1. output_checks ?Ef ?C toy_state ?pa = Inr w
         \<and> handle_rejection ?Ef toy_state ?pa w = Inr s1 \<and> rom (surrogate s1) = Some [2]"
    by blast
  from fail have fail': "try_extension ?Ef (reductor (surrogate toy_state)) (fom_solve ?Ef 1) = None"
    by simp
  \<comment> \<open>the failed subproblem\<close>
  have fb: "bfgs ?Eb [2] (mu toy_state)
      (error_aware_line_search_criterion ?Eb [2] (beta ?C) (radius toy_state)) = None"
    by simp
  from T [where env = ?Eb and cfg = ?C and s = toy_state and m = "[2]"] m fb c0
  have l7: "tr_iteration ?Eb ?C toy_state = Inl BFGSError
      \<and> tr_loop ?Eb ?C toy_state = Inl BFGSError"
    by blast
  from l1 af b1 b2 b3 l2 c0 it l3 m fail' l6 l7 show ?thesis by blast
qed

text \<open>
  Claim C3 as stated fails for the subproblem solver: \<^verbatim>\<open>trust_region\<close> calls
  \<^verbatim>\<open>error_aware_bfgs\<close> with no handler, so a solver that fails ends the iteration and
  the loop with its error; the step is not rejected and the loop does not go on.
\<close>

theorem subproblem_failure_raises_counterexample:
  "bfgs ((toy_model (-1) 0 1 True)\<lparr>bfgs := (\<lambda>m x c. None)\<rparr>) [2] 2
       (error_aware_line_search_criterion
          ((toy_model (-1) 0 1 True)\<lparr>bfgs := (\<lambda>m x c. None)\<rparr>) [2] (95 / 100) (1 / 10))
     = None
   \<and> rom (surrogate toy_state) = Some [2]
   \<and> termination_check (toy_config 0 2 (Finite 0)) toy_state = Continue
   \<and> tr_iteration ((toy_model (-1) 0 1 True)\<lparr>bfgs := (\<lambda>m x c. None)\<rparr>)
        (toy_config 0 2 (Finite 0)) toy_state = Inl BFGSError
   \<and> tr_loop ((toy_model (-1) 0 1 True)\<lparr>bfgs := (\<lambda>m x c. None)\<rparr>)
        (toy_config 0 2 (Finite 0)) toy_state = Inl BFGSError"
proof -
  let ?Eb = "(toy_model (-1) 0 1 True)\<lparr>bfgs := (\<lambda>m x c. None)\<rparr>"
  let ?C = "toy_config 0 2 (Finite 0)"
  have m: "rom (surrogate toy_state) = Some [2]"
    by (simp add: toy_state_def toy_surrogate_def)
  have c0: "termination_check ?C toy_state = Continue"
    by (simp add: termination_check_def toy_config_def toy_state_def)
  have sp: "solve_subproblem ?Eb ?C toy_state = Inl BFGSError"
    using m by (simp add: solve_subproblem_def)
  then have it: "tr_iteration ?Eb ?C toy_state = Inl BFGSError"
    by (simp add: tr_iteration_def)
  with c0 have lp: "tr_loop ?Eb ?C toy_state = Inl BFGSError"
    by (simp add: tr_loop.simps [of _ _ toy_state])
  have b: "bfgs ?Eb [2] 2 (error_aware_line_search_criterion ?Eb [2] (95 / 100) (1 / 10)) = None"
    by simp
  from b m c0 it lp show ?thesis by blast
qed

subsection \<open>The termination check and the iteration budget\<close>

lemma solve_subproblem_total:
  assumes m: "rom (surrogate s) = Some m"
    and iterates: "\<forall>m x c. \<exists>y sd. bfgs env m x c = Some (y, sd) \<and> sub_data_mus env sd \<noteq> []"
  shows "\<exists>p. solve_subproblem env cfg s = Inr p"
proof -
  from iterates obtain a b where ab: "bfgs env m (mu s)
      (error_aware_line_search_criterion env m (beta cfg) (radius s)) = Some (a, b)"
    and ne: "sub_data_mus env b \<noteq> []"
    by blast
  with m show ?thesis
    by (auto simp: solve_subproblem_def Let_def)
qed

lemma well_started_iteration:
  assumes ws: "well_started s"
    and norms: "\<forall>x. \<exists>r\<ge>0. linalg_norm env x = Finite r"
    and iterates: "\<forall>m x c. \<exists>y sd. bfgs env m x c = Some (y, sd) \<and> sub_data_mus env sd \<noteq> []"
  shows "\<exists>s'. tr_iteration env cfg s = Inr s' \<and> well_started s'"
proof -
  from ws obtain m where m: "rom (surrogate s) = Some m"
    and fin: "isfinite (mu_norm s)"
    and foc: "\<not> np_less (first_order_criticality s) (Finite 0)"
    by (auto simp: well_started_def)
  from solve_subproblem_total [OF m iterates] obtain p where
    sp: "solve_subproblem env cfg s = Inr p" by blast
  from output_checks_total [OF m] obtain v where oc: "output_checks env cfg s p = Inr v"
    by blast
  from handle_rejection_total [OF oc] obtain s1 where
    hr: "handle_rejection env s p v = Inr s1" by blast
  have n1: "isfinite (mu_norm s1)" and f1: "\<not> np_less (first_order_criticality s1) (Finite 0)"
  proof -
    show "isfinite (mu_norm s1)"
    proof (cases "rejected v")
      case True
      from handle_rejection_rejected [OF True, of env s p] hr fin show ?thesis by auto
    next
      case False
      from output_checks_accepted [OF oc False] obtain sur' where
        "accept (surrogate_after v) = Inr sur'" by blast
      from handle_rejection_accepted [OF False this, of env s p] hr
      have "mu_norm s1 = linalg_norm env (cand_mu p)" by auto
      with norms show ?thesis by (metis isfinite.simps(1))
    qed
    show "\<not> np_less (first_order_criticality s1) (Finite 0)"
    proof (cases "rejected v")
      case True
      from handle_rejection_rejected [OF True, of env s p] hr foc show ?thesis by auto
    next
      case False
      from output_checks_accepted [OF oc False] obtain sur' where
        "accept (surrogate_after v) = Inr sur'" by blast
      from handle_rejection_accepted [OF False this, of env s p] hr
      obtain y where "first_order_criticality s1 = linalg_norm env y" by auto
      moreover from norms obtain r where "r \<ge> 0" "linalg_norm env y = Finite r" by blast
      ultimately show ?thesis by simp
    qed
  qed
  from tr_iteration_unfold [OF sp oc hr] n1 have it: "tr_iteration env cfg s = Inr s1"
    by simp
  from tr_iteration_keeps_rom [OF it] n1 f1 have "well_started s1"
    by (simp add: well_started_def)
  with it show ?thesis by blast
qed

lemma budget_passes:
  assumes tol: "tol_criticality cfg = Finite 0"
    and lo: "miniter cfg \<le> maxiter cfg"
    and norms: "\<forall>x. \<exists>r\<ge>0. linalg_norm env x = Finite r"
    and iterates: "\<forall>m x c. \<exists>y sd. bfgs env m x c = Some (y, sd) \<and> sub_data_mus env sd \<noteq> []"
  shows "well_started s \<Longrightarrow> iteration s + int k = maxiter cfg \<Longrightarrow>
           \<exists>t. tr_after env cfg k s = Some t \<and> iteration t = maxiter cfg \<and> well_started t"
proof (induction k arbitrary: s)
  case 0
  then show ?case by simp
next
  case (Suc k)
  from Suc.prems(2) have lt: "iteration s < maxiter cfg" by simp
  from Suc.prems(1) have "\<not> np_less (first_order_criticality s) (Finite 0)"
    by (simp add: well_started_def)
  with lt tol have c: "termination_check cfg s = Continue"
    by (simp add: termination_check_def)
  from well_started_iteration [OF Suc.prems(1) norms iterates, of cfg] obtain s1 where
    it: "tr_iteration env cfg s = Inr s1" and ws1: "well_started s1" by blast
  from tr_iteration_iteration [OF it] Suc.prems(2)
  have "iteration s1 + int k = maxiter cfg" by simp
  from Suc.IH [OF ws1 this] obtain t where
    t: "tr_after env cfg k s1 = Some t" "iteration t = maxiter cfg" "well_started t"
    by blast
  from tr_after_Suc_head [OF c it t(1)] t(2,3) show ?case by blast
qed

text \<open>
  Claim C2. The termination check does nothing while the iteration counter is below
  \<^verbatim>\<open>miniter\<close>. From then on the loop ends with its state (the parameter and the
  record) when the criticality is below the tolerance, and otherwise raises the TRError
  of the maximum of iterations when the counter has reached \<^verbatim>\<open>maxiter\<close>. With a
  tolerance of zero, \<^verbatim>\<open>maxiter = N\<close>, \<^verbatim>\<open>miniter <= maxiter\<close>, finite norms and a
  subproblem solver that returns and reports its iterates, the loop started with
  counter zero completes exactly \<open>N\<close> iterations, reaches the next termination check
  with counter \<open>N\<close> and raises there. Where the check lets the loop go on, the loop
  runs the iteration, ends with its error if it has one, and goes on from the state the
  iteration leaves; \<open>tr_after\<close> counts these iterations.
\<close>

theorem termination_check_and_budget:
  "(iteration s < miniter cfg \<longrightarrow> termination_check cfg s = Continue)
   \<and> (iteration s \<ge> miniter cfg \<longrightarrow>
        np_less (first_order_criticality s) (tol_criticality cfg) \<longrightarrow>
        termination_check cfg s = Converged \<and> tr_loop env cfg s = Inr s)
   \<and> (iteration s \<ge> miniter cfg \<longrightarrow>
        \<not> np_less (first_order_criticality s) (tol_criticality cfg) \<longrightarrow>
        iteration s \<ge> maxiter cfg \<longrightarrow>
        termination_check cfg s = BudgetExhausted
        \<and> tr_loop env cfg s = Inl (TRError MaximumIterations))
   \<and> (iteration s \<ge> miniter cfg \<longrightarrow>
        \<not> np_less (first_order_criticality s) (tol_criticality cfg) \<longrightarrow>
        iteration s < maxiter cfg \<longrightarrow> termination_check cfg s = Continue)
   \<and> (tol_criticality cfg = Finite 0 \<longrightarrow> maxiter cfg = int N \<longrightarrow> miniter cfg \<le> maxiter cfg
        \<longrightarrow> (\<forall>x. \<exists>r\<ge>0. linalg_norm env x = Finite r)
        \<longrightarrow> (\<forall>m x c. \<exists>y sd. bfgs env m x c = Some (y, sd) \<and> sub_data_mus env sd \<noteq> [])
        \<longrightarrow> iteration s = 0 \<longrightarrow> rom (surrogate s) \<noteq> None \<longrightarrow> isfinite (mu_norm s)
        \<longrightarrow> \<not> np_less (first_order_criticality s) (Finite 0)
        \<longrightarrow> (\<exists>t. tr_after env cfg N s = Some t \<and> iteration t = int N
               \<and> termination_check cfg t = BudgetExhausted
               \<and> tr_loop env cfg s = Inl (TRError MaximumIterations)))
   \<and> (termination_check cfg s = Continue \<longrightarrow>
        tr_loop env cfg s
          = (case tr_iteration env cfg s of Inl e \<Rightarrow> Inl e | Inr s' \<Rightarrow> tr_loop env cfg s'))
   \<and> (tr_after env cfg (Suc n) s = Some u \<longrightarrow>
        termination_check cfg s = Continue
        \<and> (\<exists>s1. tr_iteration env cfg s = Inr s1 \<and> tr_after env cfg n s1 = Some u))
   \<and> (tr_after env cfg n s = Some u \<longrightarrow> tr_loop env cfg s = tr_loop env cfg u)"
proof (intro conjI impI)
  assume "termination_check cfg s = Continue"
  then show "tr_loop env cfg s
          = (case tr_iteration env cfg s of Inl e \<Rightarrow> Inl e | Inr s' \<Rightarrow> tr_loop env cfg s')"
    by (simp add: tr_loop.simps [of env cfg s])
next
  assume a: "tr_after env cfg (Suc n) s = Some u"
  then show "termination_check cfg s = Continue"
    by (simp split: if_splits)
  with a show "\<exists>s1. tr_iteration env cfg s = Inr s1 \<and> tr_after env cfg n s1 = Some u"
    by (auto split: sum.splits)
next
  assume "tr_after env cfg n s = Some u"
  then show "tr_loop env cfg s = tr_loop env cfg u"
    by (rule tr_loop_after)
next
  assume "iteration s < miniter cfg"
  then show "termination_check cfg s = Continue" by (simp add: termination_check_def)
next
  assume a: "iteration s \<ge> miniter cfg"
    "np_less (first_order_criticality s) (tol_criticality cfg)"
  then show "termination_check cfg s = Converged" by (simp add: termination_check_def)
  from tr_loop_Converged [OF this] show "tr_loop env cfg s = Inr s" .
next
  assume a: "iteration s \<ge> miniter cfg"
    "\<not> np_less (first_order_criticality s) (tol_criticality cfg)" "iteration s \<ge> maxiter cfg"
  then show "termination_check cfg s = BudgetExhausted" by (simp add: termination_check_def)
  from tr_loop_BudgetExhausted [OF this]
  show "tr_loop env cfg s = Inl (TRError MaximumIterations)" .
next
  assume "iteration s \<ge> miniter cfg"
    "\<not> np_less (first_order_criticality s) (tol_criticality cfg)" "iteration s < maxiter cfg"
  then show "termination_check cfg s = Continue" by (simp add: termination_check_def)
next
  assume tol: "tol_criticality cfg = Finite 0" and N: "maxiter cfg = int N"
    and lo: "miniter cfg \<le> maxiter cfg"
    and norms: "\<forall>x. \<exists>r\<ge>0. linalg_norm env x = Finite r"
    and iterates: "\<forall>m x c. \<exists>y sd. bfgs env m x c = Some (y, sd) \<and> sub_data_mus env sd \<noteq> []"
    and i0: "iteration s = 0" and m: "rom (surrogate s) \<noteq> None"
    and fin: "isfinite (mu_norm s)"
    and foc: "\<not> np_less (first_order_criticality s) (Finite 0)"
  from m fin foc have ws: "well_started s" by (simp add: well_started_def)
  from i0 N have "iteration s + int N = maxiter cfg" by simp
  from budget_passes [OF tol lo norms iterates ws this] obtain t where
    t: "tr_after env cfg N s = Some t" "iteration t = maxiter cfg" "well_started t"
    by blast
  from t(3) tol have "\<not> np_less (first_order_criticality t) (tol_criticality cfg)"
    by (simp add: well_started_def)
  with t(2) lo have c: "termination_check cfg t = BudgetExhausted"
    by (simp add: termination_check_def)
  from tr_loop_BudgetExhausted [OF c] tr_loop_after [OF t(1)]
  have "tr_loop env cfg s = Inl (TRError MaximumIterations)" by simp
  with t(1,2) N c
  show "\<exists>t. tr_after env cfg N s = Some t \<and> iteration t = int N
               \<and> termination_check cfg t = BudgetExhausted
               \<and> tr_loop env cfg s = Inl (TRError MaximumIterations)"
    by auto
qed

theorem termination_check_and_budget_witness:
  "iteration toy_state < miniter (toy_config 3 5 (Finite 0))
   \<and> termination_check (toy_config 3 5 (Finite 0)) toy_state = Continue
   \<and> iteration toy_state_accepted \<ge> miniter (toy_config 0 5 (Finite 2))
   \<and> np_less (first_order_criticality toy_state_accepted) (tol_criticality (toy_config 0 5 (Finite 2)))
   \<and> tr_loop (toy_model (-1) 0 1 True) (toy_config 0 5 (Finite 2)) toy_state_accepted
       = Inr toy_state_accepted
   \<and> iteration (toy_state\<lparr>radius := 1 / 20, iteration := 1\<rparr>) \<ge> maxiter (toy_config 0 1 (Finite 0))
   \<and> tr_loop (toy_model 1 0 1 True) (toy_config 0 1 (Finite 0))
        (toy_state\<lparr>radius := 1 / 20, iteration := 1\<rparr>) = Inl (TRError MaximumIterations)
   \<and> iteration toy_state < maxiter (toy_config 0 2 (Finite 0))
   \<and> termination_check (toy_config 0 2 (Finite 0)) toy_state = Continue
   \<and> tol_criticality (toy_config 0 2 (Finite 0)) = Finite 0
   \<and> maxiter (toy_config 0 2 (Finite 0)) = int 2
   \<and> miniter (toy_config 0 2 (Finite 0)) \<le> maxiter (toy_config 0 2 (Finite 0))
   \<and> iteration toy_state = 0
   \<and> (\<exists>t. tr_after (toy_model 1 0 1 True) (toy_config 0 2 (Finite 0)) 2 toy_state = Some t
          \<and> iteration t = 2
          \<and> termination_check (toy_config 0 2 (Finite 0)) t = BudgetExhausted)
   \<and> tr_loop (toy_model 1 0 1 True) (toy_config 0 2 (Finite 0)) toy_state
       = Inl (TRError MaximumIterations)
   \<and> tr_iteration (toy_model 1 0 1 True) (toy_config 0 2 (Finite 0)) toy_state
       = Inr (toy_state\<lparr>radius := 1 / 20, iteration := 1\<rparr>)
   \<and> tr_loop (toy_model 1 0 1 True) (toy_config 0 2 (Finite 0)) toy_state
       = tr_loop (toy_model 1 0 1 True) (toy_config 0 2 (Finite 0))
           (toy_state\<lparr>radius := 1 / 20, iteration := 1\<rparr>)
   \<and> tr_after (toy_model 1 0 1 True) (toy_config 0 1 (Finite 0)) (Suc 0) toy_state
       = Some (toy_state\<lparr>radius := 1 / 20, iteration := 1\<rparr>)
   \<and> termination_check (toy_config 0 1 (Finite 0)) toy_state = Continue
   \<and> tr_loop (toy_model 1 0 1 True) (toy_config 0 1 (Finite 0)) toy_state
       = Inl (TRError MaximumIterations)"
proof -
  let ?Er = "toy_model 1 0 1 True"
  let ?Ea = "toy_model (-1) 0 1 True"
  let ?C35 = "toy_config 3 5 (Finite 0)"
  let ?C05 = "toy_config 0 5 (Finite 2)"
  let ?C01 = "toy_config 0 1 (Finite 0)"
  let ?C02 = "toy_config 0 2 (Finite 0)"
  let ?sr = "toy_state\<lparr>radius := 1 / 20, iteration := 1\<rparr>"
  note T = termination_check_and_budget
  have h1: "iteration toy_state < miniter ?C35" by (simp add: toy_state_def toy_config_def)
  from T [of toy_state ?C35] h1 have r1: "termination_check ?C35 toy_state = Continue"
    by blast
  have h2: "iteration toy_state_accepted \<ge> miniter ?C05"
    by (simp add: toy_state_accepted_def toy_config_def)
  have h3: "np_less (first_order_criticality toy_state_accepted) (tol_criticality ?C05)"
    by (simp add: toy_state_accepted_def toy_config_def)
  from T [of toy_state_accepted ?C05 ?Ea] h2 h3
  have r2: "tr_loop ?Ea ?C05 toy_state_accepted = Inr toy_state_accepted" by blast
  have h4: "iteration ?sr \<ge> miniter ?C01" by (simp add: toy_config_def)
  have h5: "\<not> np_less (first_order_criticality ?sr) (tol_criticality ?C01)"
    by (simp add: toy_state_def toy_config_def)
  have h6: "iteration ?sr \<ge> maxiter ?C01" by (simp add: toy_config_def)
  from T [of ?sr ?C01 ?Er] h4 h5 h6
  have r3: "tr_loop ?Er ?C01 ?sr = Inl (TRError MaximumIterations)" by blast
  have h7: "iteration toy_state \<ge> miniter ?C02" by (simp add: toy_state_def toy_config_def)
  have h8: "\<not> np_less (first_order_criticality toy_state) (tol_criticality ?C02)"
    by (simp add: toy_state_def toy_config_def)
  have h9: "iteration toy_state < maxiter ?C02" by (simp add: toy_state_def toy_config_def)
  from T [of toy_state ?C02] h7 h8 h9 have r4: "termination_check ?C02 toy_state = Continue"
    by blast
  have b1: "tol_criticality ?C02 = Finite 0" by (simp add: toy_config_def)
  have b2: "maxiter ?C02 = int 2" by (simp add: toy_config_def)
  have b3: "miniter ?C02 \<le> maxiter ?C02" by (simp add: toy_config_def)
  have b4: "\<forall>x. \<exists>r\<ge>0. linalg_norm ?Er x = Finite r" by (simp add: toy_model_def)
  have b5: "\<forall>m x c. \<exists>y sd. bfgs ?Er m x c = Some (y, sd) \<and> sub_data_mus ?Er sd \<noteq> []"
    by (simp add: toy_model_def)
  have b6: "iteration toy_state = 0" by (simp add: toy_state_def)
  have b7: "rom (surrogate toy_state) \<noteq> None" by (simp add: toy_state_def toy_surrogate_def)
  have b8: "isfinite (mu_norm toy_state)" by (simp add: toy_state_def)
  have b9: "\<not> np_less (first_order_criticality toy_state) (Finite 0)" by (simp add: toy_state_def)
  from T [of toy_state ?C02 ?Er 2] b1 b2 b3 b4 b5 b6 b7 b8 b9
  obtain t where t: "tr_after ?Er ?C02 2 toy_state = Some t" "iteration t = int 2"
    "termination_check ?C02 t = BudgetExhausted"
    "tr_loop ?Er ?C02 toy_state = Inl (TRError MaximumIterations)"
    by blast
  from t have r5: "\<exists>t. tr_after ?Er ?C02 2 toy_state = Some t \<and> iteration t = 2
          \<and> termination_check ?C02 t = BudgetExhausted"
    by auto
  have it: "tr_iteration ?Er ?C02 toy_state = Inr ?sr"
    by (rule toy_pessimistic_iteration)
  from T [of toy_state ?C02 ?Er] r4
  have "tr_loop ?Er ?C02 toy_state
      = (case tr_iteration ?Er ?C02 toy_state of Inl e \<Rightarrow> Inl e
         | Inr s' \<Rightarrow> tr_loop ?Er ?C02 s')"
    by blast
  with it have u1: "tr_loop ?Er ?C02 toy_state = tr_loop ?Er ?C02 ?sr" by simp
  have af: "tr_after ?Er ?C01 (Suc 0) toy_state = Some ?sr"
    using toy_rejected_after_one by simp
  from T [of toy_state ?C01 ?Er _ 0 ?sr] af
  have u2: "termination_check ?C01 toy_state = Continue" by blast
  from T [of toy_state ?C01 ?Er _ "Suc 0" ?sr] af
  have "tr_loop ?Er ?C01 toy_state = tr_loop ?Er ?C01 ?sr" by blast
  with r3 have u3: "tr_loop ?Er ?C01 toy_state = Inl (TRError MaximumIterations)" by simp
  from h1 r1 h2 h3 r2 h6 r3 h9 r4 b1 b2 b3 b6 r5 t(4) it u1 af u2 u3 show ?thesis by blast
qed

end
